theory Spec2Isabelle
  imports Main
begin

section \<open>Python values, exceptions and string helpers\<close>

text \<open>
  The gallery endpoints of \<^verbatim>\<open>backend/api/endpoints/gallery.py\<close> are embedded as HOL
  functions. A raise is a value \<open>Inl e\<close> of a sum type, a return is \<open>Inr r\<close>.
  An \<open>HTTPException\<close> carries its status code; the detail text is left out.
  Strings are ASCII strings.
\<close>

datatype exn =
    HTTPException nat
  | JSONDecodeError
  | KeyError string
  | AttributeError
  | TypeError
  | ValueError
  | ImportError
  | ServiceError string

datatype MediaType = IMAGE | VIDEO

fun media_value :: "MediaType \<Rightarrow> string" where
  "media_value IMAGE = ''image''"
| "media_value VIDEO = ''video''"

text \<open>A scalar value of a metadata document (floating point numbers are left out).\<close>

datatype scalar = SNone | SBool bool | SInt int | SStr string

text \<open>A parsed JSON value, as \<open>json.loads\<close> returns it.\<close>

datatype json =
    JNull
  | JBool bool
  | JNum int
  | JStr string
  | JArr "json list"
  | JObj "(string \<times> json) list"

text \<open>Python truthiness of a parsed JSON value.\<close>

fun json_truthy :: "json \<Rightarrow> bool" where
  "json_truthy JNull = False"
| "json_truthy (JBool b) = b"
| "json_truthy (JNum n) = (n \<noteq> 0)"
| "json_truthy (JStr s) = (s \<noteq> [])"
| "json_truthy (JArr xs) = (xs \<noteq> [])"
| "json_truthy (JObj kvs) = (kvs \<noteq> [])"

text \<open>Truthiness of an optional string: \<open>None\<close> and the empty string are falsy.\<close>

fun str_truthy :: "string option \<Rightarrow> bool" where
  "str_truthy None = False"
| "str_truthy (Some s) = (s \<noteq> [])"

definition lower_char :: "char \<Rightarrow> char" where
  "lower_char c =
     (case map_of (zip ''ABCDEFGHIJKLMNOPQRSTUVWXYZ'' ''abcdefghijklmnopqrstuvwxyz'') c of
        Some l \<Rightarrow> l | None \<Rightarrow> c)"

definition upper_char :: "char \<Rightarrow> char" where
  "upper_char c =
     (case map_of (zip ''abcdefghijklmnopqrstuvwxyz'' ''ABCDEFGHIJKLMNOPQRSTUVWXYZ'') c of
        Some u \<Rightarrow> u | None \<Rightarrow> c)"

definition lower :: "string \<Rightarrow> string" where
  "lower s = map lower_char s"

fun capitalize :: "string \<Rightarrow> string" where
  "capitalize [] = []"
| "capitalize (c # cs) = upper_char c # map lower_char cs"

definition endswith :: "string \<Rightarrow> string \<Rightarrow> bool" where
  "endswith s ext =
     (length ext \<le> length s \<and> drop (length s - length ext) s = ext)"

text \<open>\<open>s.split(sep)\<close> for a one-character separator: the result is never empty.\<close>

fun py_split :: "char \<Rightarrow> string \<Rightarrow> string list" where
  "py_split sep [] = [[]]"
| "py_split sep (c # cs) =
     (if c = sep then [] # py_split sep cs
      else (case py_split sep cs of
              [] \<Rightarrow> [[c]]
            | w # ws \<Rightarrow> (c # w) # ws))"

text \<open>The ASCII characters \<open>str.strip()\<close> removes.\<close>

definition is_space :: "char \<Rightarrow> bool" where
  "is_space c =
     (c \<in> set [CHR '' '', CHR 0x09, CHR 0x0A, CHR 0x0B, CHR 0x0C, CHR 0x0D,
                CHR 0x1C, CHR 0x1D, CHR 0x1E, CHR 0x1F])"

definition strip :: "string \<Rightarrow> string" where
  "strip s = rev (dropWhile is_space (rev (dropWhile is_space s)))"

fun join :: "string \<Rightarrow> string list \<Rightarrow> string" where
  "join sep [] = []"
| "join sep [x] = x"
| "join sep (x # y # ys) = x @ sep @ join sep (y # ys)"

fun digit_char :: "nat \<Rightarrow> char" where
  "digit_char n = ''0123456789'' ! (n mod 10)"

fun str_nat :: "nat \<Rightarrow> string" where
  "str_nat n = (if n < 10 then [digit_char n] else str_nat (n div 10) @ [digit_char n])"

declare str_nat.simps [simp del]

definition str_int :: "int \<Rightarrow> string" where
  "str_int i = (if i < 0 then CHR ''-'' # str_nat (nat (- i)) else str_nat (nat i))"

text \<open>\<open>str(v)\<close> on a scalar value.\<close>

fun py_str :: "scalar \<Rightarrow> string" where
  "py_str SNone = ''None''"
| "py_str (SBool b) = (if b then ''True'' else ''False'')"
| "py_str (SInt i) = str_int i"
| "py_str (SStr s) = s"

section \<open>Settings, services and the state of the world\<close>

record settings =
  AZURE_COSMOS_DB_ENDPOINT :: "string option"
  AZURE_COSMOS_DB_KEY :: "string option"
  USE_MANAGED_IDENTITY :: bool
  AZURE_BLOB_IMAGE_CONTAINER :: string
  AZURE_BLOB_VIDEO_CONTAINER :: string
  AZURE_STORAGE_ACCOUNT_NAME :: string
  AZURE_STORAGE_ACCOUNT_KEY :: string

datatype CosmosDBService = CosmosDBService

text \<open>
  \<open>logger.warning\<close>, \<open>logger.error\<close> and \<open>print\<close> calls: the fixed text
  of the message and the exception formatted into it.
\<close>

datatype log_entry =
    LogWarning string exn
  | LogError string exn
  | Printed string exn

record 's world =
  store :: 's
  logged :: "log_entry list"

record UploadFile =
  filename :: "string option"
  file_content :: string

text \<open>The dictionary \<open>AzureBlobStorageService.upload_asset\<close> returns.\<close>

record upload_result =
  res_blob_name :: string
  res_container :: string
  res_url :: string
  res_original_filename :: string
  res_size :: nat
  res_content_type :: string
  res_folder_path :: string

record AssetMetadataCreateRequest =
  req_media_type :: string
  req_blob_name :: string
  req_container :: string
  req_url :: string
  req_filename :: string
  req_size :: nat
  req_content_type :: string
  req_folder_path :: string
  req_custom_metadata :: "json option"

text \<open>
  A metadata document of the metadata store, as a Python dictionary. The \<open>tags\<close> and
  \<open>custom_metadata\<close> entries are absent (\<open>None\<close> here) or a list of strings and a
  dictionary. A document in which one of them is present and null is not represented:
  on it the listing code raises \<open>TypeError\<close> and the handler answers HTTP 500.
\<close>

record asset_doc =
  doc_fields :: "string \<rightharpoonup> scalar"
  doc_tags :: "string list option"
  doc_custom_metadata :: "(string \<rightharpoonup> scalar) option"

record query_args =
  q_media_type :: "string option"
  q_folder_path :: "string option"
  q_tags :: "string list option"
  q_limit :: int
  q_offset :: int
  q_order_by :: string
  q_order_desc :: bool

record query_result =
  result_items :: "asset_doc list"
  result_total :: int

record ContainerSasPermissions =
  perm_read :: bool
  perm_write :: bool
  perm_delete :: bool
  perm_list :: bool

record container_sas_args =
  sas_account_name :: string
  sas_container_name :: string
  sas_account_key :: string
  sas_permission :: ContainerSasPermissions
  sas_expiry :: int

text \<open>
  The two SDK wrappers (\<open>AzureBlobStorageService\<close>, \<open>CosmosDBService\<close>) and the
  library functions the handlers call are parameters: an operation that can change the
  stores takes the store and returns the new one with its outcome, a read-only operation
  takes the store only.
\<close>

record 's services =
  cosmos_init :: "exn option"
  cosmos_query_assets :: "query_args \<Rightarrow> 's \<Rightarrow> exn + query_result"
  cosmos_create_asset_metadata :: "AssetMetadataCreateRequest \<Rightarrow> 's \<Rightarrow> (exn + unit) \<times> 's"
  cosmos_delete_asset_metadata :: "string \<Rightarrow> string \<Rightarrow> 's \<Rightarrow> (exn + unit) \<times> 's"
  cosmos_health_check :: "'s \<Rightarrow> exn + (string \<rightharpoonup> scalar)"
  blob_upload_asset ::
    "UploadFile \<Rightarrow> string \<Rightarrow> json option \<Rightarrow> string option \<Rightarrow> 's \<Rightarrow> (exn + upload_result) \<times> 's"
  blob_delete_asset :: "string \<Rightarrow> string \<Rightarrow> 's \<Rightarrow> (exn + bool) \<times> 's"
  blob_get_asset_content :: "string \<Rightarrow> string \<Rightarrow> 's \<Rightarrow> exn + (string option \<times> string option)"
  blob_generate_blob_sas_url :: "scalar \<Rightarrow> scalar \<Rightarrow> nat \<Rightarrow> 's \<Rightarrow> exn + string"
  blob_ensure_container_exists :: "string \<Rightarrow> 's \<Rightarrow> (exn + unit) \<times> 's"
  json_loads :: "string \<Rightarrow> json option"
  json_dumps :: "json \<Rightarrow> string"
  generate_container_sas :: "container_sas_args \<Rightarrow> exn + string"

section \<open>The metadata store dependency\<close>

text \<open>
  \<open>get_cosmos_service\<close>: the service when the endpoint and a key or managed identity are
  configured and the client initialises, HTTP 503 otherwise. An exception of the
  constructor that is not an \<open>HTTPException\<close> is logged.
\<close>

definition get_cosmos_service ::
  "'s services \<Rightarrow> settings \<Rightarrow> (exn + CosmosDBService) \<times> log_entry list" where
  "get_cosmos_service svc st =
     (if str_truthy (AZURE_COSMOS_DB_ENDPOINT st) then
        (if str_truthy (AZURE_COSMOS_DB_KEY st) \<or> USE_MANAGED_IDENTITY st then
           (case cosmos_init svc of
              None \<Rightarrow> (Inr CosmosDBService, [])
            | Some (HTTPException c) \<Rightarrow> (Inl (HTTPException c), [])
            | Some e \<Rightarrow>
                (Inl (HTTPException 503),
                 [LogError ''Cosmos DB service initialization failed: '' e]))
         else (Inl (HTTPException 503), []))
      else (Inl (HTTPException 503), []))"

section \<open>POST /upload\<close>

fun valid_types :: "MediaType \<Rightarrow> string list" where
  "valid_types IMAGE = [''.jpg'', ''.jpeg'', ''.png'', ''.gif'', ''.webp'', ''.svg'', ''.bmp'']"
| "valid_types VIDEO = [''.mp4'', ''.mov'', ''.avi'', ''.wmv'', ''.webm'', ''.mkv'']"

text \<open>
  The loop over \<open>list(metadata_dict.items())\<close>: a \<open>None\<close> value deletes its key, a
  dict or list value is replaced by its \<open>json.dumps\<close> text, anything else stays.
\<close>

fun dict_del :: "string \<Rightarrow> (string \<times> json) list \<Rightarrow> (string \<times> json) list" where
  "dict_del k [] = []"
| "dict_del k ((k', v) # kvs) = (if k' = k then dict_del k kvs else (k', v) # dict_del k kvs)"

fun dict_set :: "string \<Rightarrow> json \<Rightarrow> (string \<times> json) list \<Rightarrow> (string \<times> json) list" where
  "dict_set k v [] = [(k, v)]"
| "dict_set k v ((k', v') # kvs) =
     (if k' = k then (k, v) # kvs else (k', v') # dict_set k v kvs)"

fun normalize_item ::
  "(json \<Rightarrow> string) \<Rightarrow> string \<times> json \<Rightarrow> (string \<times> json) list \<Rightarrow> (string \<times> json) list" where
  "normalize_item dumps (key, JNull) d = dict_del key d"
| "normalize_item dumps (key, JObj kvs) d = dict_set key (JStr (dumps (JObj kvs))) d"
| "normalize_item dumps (key, JArr xs) d = dict_set key (JStr (dumps (JArr xs))) d"
| "normalize_item dumps (key, v) d = d"

definition normalize_metadata ::
  "(json \<Rightarrow> string) \<Rightarrow> (string \<times> json) list \<Rightarrow> (string \<times> json) list" where
  "normalize_metadata dumps d = fold (normalize_item dumps) d d"

text \<open>
  The \<open>metadata\<close> form field: absent or empty gives no dictionary; text that
  \<open>json.loads\<close> rejects raises HTTP 400; a truthy value that is not a dictionary has no
  \<open>items\<close> method.
\<close>

definition parse_metadata :: "'s services \<Rightarrow> string option \<Rightarrow> exn + json option" where
  "parse_metadata svc metadata =
     (case metadata of
        None \<Rightarrow> Inr None
      | Some text \<Rightarrow>
          (if text = [] then Inr None
           else
             (case json_loads svc text of
                None \<Rightarrow> Inl (HTTPException 400)
              | Some j \<Rightarrow>
                  (if json_truthy j then
                     (case j of
                        JObj d \<Rightarrow> Inr (Some (JObj (normalize_metadata (json_dumps svc) d)))
                      | _ \<Rightarrow> Inl AttributeError)
                   else Inr (Some j)))))"

record AssetUploadResponse =
  up_success :: bool
  up_message :: string
  up_result :: upload_result

definition create_request ::
  "MediaType \<Rightarrow> upload_result \<Rightarrow> json option \<Rightarrow> AssetMetadataCreateRequest" where
  "create_request media_type result metadata_dict =
     \<lparr> req_media_type = media_value media_type,
       req_blob_name = res_blob_name result,
       req_container = res_container result,
       req_url = res_url result,
       req_filename = res_original_filename result,
       req_size = res_size result,
       req_content_type = res_content_type result,
       req_folder_path = res_folder_path result,
       req_custom_metadata = metadata_dict \<rparr>"

text \<open>The body of the \<open>try\<close> block of \<open>upload_asset\<close>.\<close>

definition upload_body ::
  "'s services \<Rightarrow> UploadFile \<Rightarrow> MediaType \<Rightarrow> string option \<Rightarrow> string option \<Rightarrow>
   CosmosDBService option \<Rightarrow> 's world \<Rightarrow> (exn + AssetUploadResponse) \<times> 's world" where
  "upload_body svc file media_type metadata folder_path cosmos_service w =
     (case filename file of
        None \<Rightarrow> (Inl AttributeError, w)
      | Some fname \<Rightarrow>
          (if \<not> list_ex (endswith (lower fname)) (valid_types media_type)
           then (Inl (HTTPException 400), w)
           else
             (case parse_metadata svc metadata of
                Inl e \<Rightarrow> (Inl e, w)
              | Inr metadata_dict \<Rightarrow>
                  (case blob_upload_asset svc file (media_value media_type) metadata_dict
                          folder_path (store w) of
                     (Inl e, s1) \<Rightarrow> (Inl e, w\<lparr>store := s1\<rparr>)
                   | (Inr result, s1) \<Rightarrow>
                       (let w1 = w\<lparr>store := s1\<rparr>;
                            w2 = (case cosmos_service of
                                    None \<Rightarrow> w1
                                  | Some c \<Rightarrow>
                                      (case cosmos_create_asset_metadata svc
                                              (create_request media_type result metadata_dict) s1 of
                                         (Inl e, s2) \<Rightarrow>
                                           w1\<lparr>store := s2,
                                              logged := logged w1 @
                                                [LogWarning ''Failed to create Cosmos DB metadata: '' e]\<rparr>
                                       | (Inr u, s2) \<Rightarrow> w1\<lparr>store := s2\<rparr>))
                        in (Inr \<lparr> up_success = True,
                                  up_message = capitalize (media_value media_type) @
                                               '' uploaded successfully'',
                                  up_result = result \<rparr>, w2))))))"

text \<open>
  \<open>upload_asset\<close>: the \<open>except Exception\<close> clause catches every exception of the body,
  an \<open>HTTPException\<close> included, prints it and raises HTTP 500.
\<close>

definition upload_asset ::
  "'s services \<Rightarrow> UploadFile \<Rightarrow> MediaType \<Rightarrow> string option \<Rightarrow> string option \<Rightarrow>
   CosmosDBService option \<Rightarrow> 's world \<Rightarrow> (exn + AssetUploadResponse) \<times> 's world" where
  "upload_asset svc file media_type metadata folder_path cosmos_service w =
     (case upload_body svc file media_type metadata folder_path cosmos_service w of
        (Inl e, w') \<Rightarrow>
          (Inl (HTTPException 500),
           w'\<lparr>logged := logged w' @ [Printed ''Upload error: '' e, Printed ''Error trace: '' e]\<rparr>)
      | (Inr r, w') \<Rightarrow> (Inr r, w'))"

text \<open>
  The route: the metadata store dependency is resolved first, its exception is the
  response. The blob service is taken as constructed: the constructor
  \<open>AzureBlobStorageService()\<close>, resolved before it, is not part of the model.
\<close>

definition route_upload ::
  "'s services \<Rightarrow> settings \<Rightarrow> UploadFile \<Rightarrow> MediaType \<Rightarrow> string option \<Rightarrow> string option \<Rightarrow>
   's world \<Rightarrow> (exn + AssetUploadResponse) \<times> 's world" where
  "route_upload svc st file media_type metadata folder_path w =
     (case get_cosmos_service svc st of
        (Inl e, msgs) \<Rightarrow> (Inl e, w\<lparr>logged := logged w @ msgs\<rparr>)
      | (Inr c, msgs) \<Rightarrow>
          upload_asset svc file media_type metadata folder_path (Some c)
            (w\<lparr>logged := logged w @ msgs\<rparr>))"

section \<open>DELETE /delete\<close>

record AssetDeleteResponse =
  del_success :: bool
  del_message :: string
  del_blob_name :: string
  del_container :: string

text \<open>
  The container: the \<open>container\<close> parameter when it is given and not empty, otherwise
  the configured container of the media type; HTTP 400 when neither is given.
\<close>

definition resolve_container ::
  "settings \<Rightarrow> MediaType option \<Rightarrow> string option \<Rightarrow> exn + string" where
  "resolve_container st media_type container =
     (if str_truthy container then
        (case container of Some c \<Rightarrow> Inr c | None \<Rightarrow> Inl (HTTPException 400))
      else
        (case media_type of
           None \<Rightarrow> Inl (HTTPException 400)
         | Some m \<Rightarrow>
             Inr (if m = IMAGE then AZURE_BLOB_IMAGE_CONTAINER st
                  else AZURE_BLOB_VIDEO_CONTAINER st)))"

text \<open>\<open>blob_name.split(".")[0].split("/")[-1]\<close>\<close>

definition asset_id_of :: "string \<Rightarrow> string" where
  "asset_id_of blob_name = last (py_split CHR ''/'' (hd (py_split CHR ''.'' blob_name)))"

definition media_type_str :: "settings \<Rightarrow> string \<Rightarrow> string" where
  "media_type_str st container_name =
     (if container_name = AZURE_BLOB_IMAGE_CONTAINER st then ''image'' else ''video'')"

text \<open>
  The metadata record is deleted first, when a service is there; its exception is logged
  and dropped. Then the blob is deleted.
\<close>

definition delete_metadata_first ::
  "'s services \<Rightarrow> CosmosDBService option \<Rightarrow> string \<Rightarrow> string \<Rightarrow> 's world \<Rightarrow> 's world" where
  "delete_metadata_first svc cosmos_service asset_id mt w =
     (case cosmos_service of
        None \<Rightarrow> w
      | Some c \<Rightarrow>
          (case cosmos_delete_asset_metadata svc asset_id mt (store w) of
             (Inl e, s1) \<Rightarrow>
               w\<lparr>store := s1,
                 logged := logged w @ [LogWarning ''Failed to delete Cosmos DB metadata: '' e]\<rparr>
           | (Inr u, s1) \<Rightarrow> w\<lparr>store := s1\<rparr>))"

definition delete_body ::
  "'s services \<Rightarrow> settings \<Rightarrow> string \<Rightarrow> MediaType option \<Rightarrow> string option \<Rightarrow>
   CosmosDBService option \<Rightarrow> 's world \<Rightarrow> (exn + AssetDeleteResponse) \<times> 's world" where
  "delete_body svc st blob_name media_type container cosmos_service w =
     (case resolve_container st media_type container of
        Inl e \<Rightarrow> (Inl e, w)
      | Inr container_name \<Rightarrow>
          (let asset_id = asset_id_of blob_name;
               mt = media_type_str st container_name;
               w1 = delete_metadata_first svc cosmos_service asset_id mt w
           in (case blob_delete_asset svc blob_name container_name (store w1) of
                 (Inl e, s2) \<Rightarrow> (Inl e, w1\<lparr>store := s2\<rparr>)
               | (Inr success, s2) \<Rightarrow>
                   (if \<not> success then (Inl (HTTPException 404), w1\<lparr>store := s2\<rparr>)
                    else (Inr \<lparr> del_success = True,
                                del_message = ''Asset deleted successfully'',
                                del_blob_name = blob_name,
                                del_container = container_name \<rparr>,
                          w1\<lparr>store := s2\<rparr>)))))"

text \<open>
  \<open>delete_asset\<close>: an \<open>HTTPException\<close> of the body is raised again as it is, any other
  exception becomes HTTP 500.
\<close>

definition delete_asset ::
  "'s services \<Rightarrow> settings \<Rightarrow> string \<Rightarrow> MediaType option \<Rightarrow> string option \<Rightarrow>
   CosmosDBService option \<Rightarrow> 's world \<Rightarrow> (exn + AssetDeleteResponse) \<times> 's world" where
  "delete_asset svc st blob_name media_type container cosmos_service w =
     (case delete_body svc st blob_name media_type container cosmos_service w of
        (Inl (HTTPException c), w') \<Rightarrow> (Inl (HTTPException c), w')
      | (Inl e, w') \<Rightarrow> (Inl (HTTPException 500), w')
      | (Inr r, w') \<Rightarrow> (Inr r, w'))"

definition route_delete ::
  "'s services \<Rightarrow> settings \<Rightarrow> string \<Rightarrow> MediaType option \<Rightarrow> string option \<Rightarrow>
   's world \<Rightarrow> (exn + AssetDeleteResponse) \<times> 's world" where
  "route_delete svc st blob_name media_type container w =
     (case get_cosmos_service svc st of
        (Inl e, msgs) \<Rightarrow> (Inl e, w\<lparr>logged := logged w @ msgs\<rparr>)
      | (Inr c, msgs) \<Rightarrow>
          delete_asset svc st blob_name media_type container (Some c)
            (w\<lparr>logged := logged w @ msgs\<rparr>))"

section \<open>GET /asset/{media_type}/{blob_name}\<close>

record StreamingResponse =
  stream_content :: string
  stream_media_type :: "string option"
  stream_filename :: string

text \<open>
  No metadata store dependency. The HTTP 404 of a missing blob is raised inside the
  \<open>try\<close> block, whose \<open>except Exception\<close> clause turns every exception into HTTP 500.
\<close>

definition get_asset_content ::
  "'s services \<Rightarrow> settings \<Rightarrow> MediaType \<Rightarrow> string \<Rightarrow> 's \<Rightarrow> exn + StreamingResponse" where
  "get_asset_content svc st media_type blob_name s =
     (let container_name = (if media_type = IMAGE then AZURE_BLOB_IMAGE_CONTAINER st
                            else AZURE_BLOB_VIDEO_CONTAINER st);
          body = (case blob_get_asset_content svc blob_name container_name s of
                    Inl e \<Rightarrow> Inl e
                  | Inr (content, content_type) \<Rightarrow>
                      (case content of
                         None \<Rightarrow> Inl (HTTPException 404)
                       | Some bytes \<Rightarrow>
                           (if bytes = [] then Inl (HTTPException 404)
                            else Inr \<lparr> stream_content = bytes,
                                       stream_media_type = content_type,
                                       stream_filename =
                                         (if CHR ''/'' \<in> set blob_name
                                          then last (py_split CHR ''/'' blob_name)
                                          else blob_name) \<rparr>)))
      in (case body of Inl e \<Rightarrow> Inl (HTTPException 500) | Inr r \<Rightarrow> Inr r))"

section \<open>The gallery listings\<close>

fun try_bind :: "exn + 'a \<Rightarrow> ('a \<Rightarrow> exn + 'b) \<Rightarrow> exn + 'b" where
  "try_bind (Inl e) f = Inl e"
| "try_bind (Inr x) f = f x"

text \<open>\<open>d[k]\<close> and \<open>d.get(k, default)\<close> on a document.\<close>

definition getitem :: "(string \<rightharpoonup> scalar) \<Rightarrow> string \<Rightarrow> exn + scalar" where
  "getitem d k = (case d k of None \<Rightarrow> Inl (KeyError k) | Some v \<Rightarrow> Inr v)"

definition get_or :: "(string \<rightharpoonup> scalar) \<Rightarrow> string \<Rightarrow> scalar \<Rightarrow> scalar" where
  "get_or d k dflt = (case d k of None \<Rightarrow> dflt | Some v \<Rightarrow> v)"

definition tags_or_empty :: "asset_doc \<Rightarrow> string list" where
  "tags_or_empty m = (case doc_tags m of None \<Rightarrow> [] | Some ts \<Rightarrow> ts)"

definition custom_or_empty :: "asset_doc \<Rightarrow> (string \<rightharpoonup> scalar)" where
  "custom_or_empty m = (case doc_custom_metadata m of None \<Rightarrow> Map.empty | Some c \<Rightarrow> c)"

text \<open>\<open>[tag.strip() for tag in tags.split(",") if tag.strip()]\<close>, when \<open>tags\<close> is given.\<close>

definition parse_tags :: "string option \<Rightarrow> string list option" where
  "parse_tags tags =
     (case tags of
        None \<Rightarrow> None
      | Some t \<Rightarrow>
          (if t = [] then None
           else Some (map strip (filter (\<lambda>tag. strip tag \<noteq> []) (py_split CHR '','' t)))))"

record GalleryItem =
  item_id :: scalar
  item_name :: scalar
  item_media_type :: MediaType
  item_url :: string
  item_container :: scalar
  item_size :: scalar
  item_content_type :: scalar
  item_creation_time :: scalar
  item_last_modified :: scalar
  item_metadata :: "string \<rightharpoonup> scalar"
  item_folder_path :: scalar

record GalleryResponse =
  resp_success :: bool
  resp_message :: string
  resp_total :: int
  resp_limit :: int
  resp_offset :: int
  resp_items :: "GalleryItem list"
  resp_continuation_token :: "string option"
  resp_folders :: "string list option"

text \<open>The metadata dictionary of an image item (\<open>get_gallery_images\<close>).\<close>

definition image_metadata :: "asset_doc \<Rightarrow> (string \<rightharpoonup> scalar)" where
  "image_metadata m =
     (let d = doc_fields m in
      [ ''prompt'' \<mapsto> get_or d ''prompt'' (SStr []),
        ''model'' \<mapsto> get_or d ''model'' (SStr []),
        ''summary'' \<mapsto> get_or d ''summary'' (SStr []),
        ''description'' \<mapsto> get_or d ''description'' (SStr []),
        ''products'' \<mapsto> get_or d ''products'' (SStr []),
        ''tags'' \<mapsto> SStr (join '','' (tags_or_empty m)),
        ''quality'' \<mapsto> get_or d ''quality'' (SStr []),
        ''background'' \<mapsto> get_or d ''background'' (SStr []),
        ''output_format'' \<mapsto> get_or d ''output_format'' (SStr []),
        ''has_transparency'' \<mapsto> SStr (py_str (get_or d ''has_transparency'' (SBool False))),
        ''generation_id'' \<mapsto> get_or d ''generation_id'' (SStr []) ]
      ++ custom_or_empty m)"

text \<open>The metadata dictionary of a video item (\<open>get_gallery_videos\<close>).\<close>

definition video_metadata :: "asset_doc \<Rightarrow> (string \<rightharpoonup> scalar)" where
  "video_metadata m =
     (let d = doc_fields m in
      [ ''prompt'' \<mapsto> get_or d ''prompt'' (SStr []),
        ''model'' \<mapsto> get_or d ''model'' (SStr []),
        ''summary'' \<mapsto> get_or d ''summary'' (SStr []),
        ''description'' \<mapsto> get_or d ''description'' (SStr []),
        ''products'' \<mapsto> get_or d ''products'' (SStr []),
        ''tags'' \<mapsto> SStr (join '','' (tags_or_empty m)),
        ''generation_id'' \<mapsto> get_or d ''generation_id'' (SStr []),
        ''duration'' \<mapsto> SStr (py_str (get_or d ''duration'' (SStr []))),
        ''resolution'' \<mapsto> get_or d ''resolution'' (SStr []),
        ''fps'' \<mapsto> SStr (py_str (get_or d ''fps'' (SStr []))) ]
      ++ custom_or_empty m)"

text \<open>
  \<open>item_metadata\<close> of \<open>get_gallery_items\<close>: the common keys, then the keys of the
  document's media type, then the custom metadata.
\<close>

definition item_metadata_of :: "asset_doc \<Rightarrow> exn + (string \<rightharpoonup> scalar)" where
  "item_metadata_of m =
     (let d = doc_fields m;
          common =
            [ ''prompt'' \<mapsto> get_or d ''prompt'' (SStr []),
              ''model'' \<mapsto> get_or d ''model'' (SStr []),
              ''summary'' \<mapsto> get_or d ''summary'' (SStr []),
              ''description'' \<mapsto> get_or d ''description'' (SStr []),
              ''products'' \<mapsto> get_or d ''products'' (SStr []),
              ''tags'' \<mapsto> SStr (join '','' (tags_or_empty m)),
              ''generation_id'' \<mapsto> get_or d ''generation_id'' (SStr []) ]
      in try_bind (getitem d ''media_type'') (\<lambda>mt.
           Inr ((common ++
                 (if mt = SStr ''image'' then
                    [ ''quality'' \<mapsto> get_or d ''quality'' (SStr []),
                      ''background'' \<mapsto> get_or d ''background'' (SStr []),
                      ''output_format'' \<mapsto> get_or d ''output_format'' (SStr []),
                      ''has_transparency'' \<mapsto>
                         SStr (py_str (get_or d ''has_transparency'' (SBool False))) ]
                  else
                    [ ''duration'' \<mapsto> SStr (py_str (get_or d ''duration'' (SStr []))),
                      ''resolution'' \<mapsto> get_or d ''resolution'' (SStr []),
                      ''fps'' \<mapsto> SStr (py_str (get_or d ''fps'' (SStr []))) ]))
                ++ custom_or_empty m)))"

text \<open>\<open>MediaType(v)\<close>: the enumeration member of a value, or \<open>ValueError\<close>.\<close>

definition media_type_of :: "scalar \<Rightarrow> exn + MediaType" where
  "media_type_of v =
     (if v = SStr ''image'' then Inr IMAGE
      else if v = SStr ''video'' then Inr VIDEO
      else Inl ValueError)"

text \<open>The access URL of a document: always asked for with \<open>expiry_hours=24\<close>.\<close>

definition sas_url_of :: "'s services \<Rightarrow> 's \<Rightarrow> asset_doc \<Rightarrow> exn + string" where
  "sas_url_of svc s m =
     try_bind (getitem (doc_fields m) ''blob_name'') (\<lambda>blob_name.
     try_bind (getitem (doc_fields m) ''container'') (\<lambda>container_name.
       blob_generate_blob_sas_url svc blob_name container_name 24 s))"

text \<open>One pass of the loop body of \<open>get_gallery_images\<close> and \<open>get_gallery_videos\<close>.\<close>

definition typed_item ::
  "'s services \<Rightarrow> 's \<Rightarrow> MediaType \<Rightarrow> (asset_doc \<Rightarrow> (string \<rightharpoonup> scalar)) \<Rightarrow> asset_doc \<Rightarrow>
   exn + GalleryItem" where
  "typed_item svc s mt build m =
     (let d = doc_fields m in
      try_bind (sas_url_of svc s m) (\<lambda>sas_url.
      try_bind (getitem d ''id'') (\<lambda>i.
      try_bind (getitem d ''blob_name'') (\<lambda>name.
      try_bind (getitem d ''container'') (\<lambda>container_name.
      try_bind (getitem d ''size'') (\<lambda>size.
      try_bind (getitem d ''created_at'') (\<lambda>created.
      try_bind (getitem d ''updated_at'') (\<lambda>updated.
        Inr \<lparr> item_id = i, item_name = name, item_media_type = mt, item_url = sas_url,
              item_container = container_name, item_size = size,
              item_content_type = get_or d ''content_type'' SNone,
              item_creation_time = created, item_last_modified = updated,
              item_metadata = build m,
              item_folder_path = get_or d ''folder_path'' (SStr []) \<rparr>))))))))"

text \<open>One pass of the loop body of \<open>get_gallery_items\<close>.\<close>

definition mixed_item :: "'s services \<Rightarrow> 's \<Rightarrow> asset_doc \<Rightarrow> exn + GalleryItem" where
  "mixed_item svc s m =
     (let d = doc_fields m in
      try_bind (sas_url_of svc s m) (\<lambda>sas_url.
      try_bind (item_metadata_of m) (\<lambda>item_metadata.
      try_bind (getitem d ''id'') (\<lambda>i.
      try_bind (getitem d ''blob_name'') (\<lambda>name.
      try_bind (try_bind (getitem d ''media_type'') media_type_of) (\<lambda>mt.
      try_bind (getitem d ''container'') (\<lambda>container_name.
      try_bind (getitem d ''size'') (\<lambda>size.
      try_bind (getitem d ''created_at'') (\<lambda>created.
      try_bind (getitem d ''updated_at'') (\<lambda>updated.
        Inr \<lparr> item_id = i, item_name = name, item_media_type = mt, item_url = sas_url,
              item_container = container_name, item_size = size,
              item_content_type = get_or d ''content_type'' SNone,
              item_creation_time = created, item_last_modified = updated,
              item_metadata = item_metadata,
              item_folder_path = get_or d ''folder_path'' (SStr []) \<rparr>))))))))))"

text \<open>
  The \<open>for metadata in result["items"]\<close> loop: items are appended in order, the first
  exception leaves the loop and the handler's \<open>try\<close> block.
\<close>

fun project_loop ::
  "(asset_doc \<Rightarrow> exn + GalleryItem) \<Rightarrow> asset_doc list \<Rightarrow> GalleryItem list \<Rightarrow>
   exn + GalleryItem list" where
  "project_loop f [] gallery_items = Inr gallery_items"
| "project_loop f (m # ms) gallery_items =
     (case f m of
        Inl e \<Rightarrow> Inl e
      | Inr it \<Rightarrow> project_loop f ms (gallery_items @ [it]))"

text \<open>
  The three listing handlers share their shape: query, loop, envelope; any exception is
  logged and answered with HTTP 500.
\<close>

definition listing ::
  "'s services \<Rightarrow> (asset_doc \<Rightarrow> exn + GalleryItem) \<Rightarrow> string \<Rightarrow> string \<Rightarrow> string option \<Rightarrow>
   int \<Rightarrow> int \<Rightarrow> string option \<Rightarrow> string option \<Rightarrow> 's world \<Rightarrow>
   (exn + GalleryResponse) \<times> 's world" where
  "listing svc f noun err media_type limit offset folder_path tags w =
     (let body =
        try_bind (cosmos_query_assets svc
                    \<lparr> q_media_type = media_type, q_folder_path = folder_path,
                      q_tags = parse_tags tags, q_limit = limit, q_offset = offset,
                      q_order_by = ''created_at'', q_order_desc = True \<rparr> (store w)) (\<lambda>result.
        try_bind (project_loop f (result_items result) []) (\<lambda>gallery_items.
          Inr \<lparr> resp_success = True,
                resp_message = ''Retrieved '' @ str_nat (length gallery_items) @ '' '' @ noun @
                               '' from Cosmos DB'',
                resp_total = result_total result, resp_limit = limit, resp_offset = offset,
                resp_items = gallery_items, resp_continuation_token = None,
                resp_folders = None \<rparr>))
      in (case body of
            Inl e \<Rightarrow> (Inl (HTTPException 500), w\<lparr>logged := logged w @ [LogError err e]\<rparr>)
          | Inr r \<Rightarrow> (Inr r, w)))"

definition get_gallery_images ::
  "'s services \<Rightarrow> int \<Rightarrow> int \<Rightarrow> string option \<Rightarrow> string option \<Rightarrow> 's world \<Rightarrow>
   (exn + GalleryResponse) \<times> 's world" where
  "get_gallery_images svc limit offset folder_path tags w =
     listing svc (typed_item svc (store w) IMAGE image_metadata) ''images''
       ''Error retrieving images: '' (Some ''image'') limit offset folder_path tags w"

definition get_gallery_videos ::
  "'s services \<Rightarrow> int \<Rightarrow> int \<Rightarrow> string option \<Rightarrow> string option \<Rightarrow> 's world \<Rightarrow>
   (exn + GalleryResponse) \<times> 's world" where
  "get_gallery_videos svc limit offset folder_path tags w =
     listing svc (typed_item svc (store w) VIDEO video_metadata) ''videos''
       ''Error retrieving videos: '' (Some ''video'') limit offset folder_path tags w"

definition get_gallery_items ::
  "'s services \<Rightarrow> int \<Rightarrow> int \<Rightarrow> string option \<Rightarrow> string option \<Rightarrow> string option \<Rightarrow> 's world \<Rightarrow>
   (exn + GalleryResponse) \<times> 's world" where
  "get_gallery_items svc limit offset folder_path tags media_type w =
     listing svc (mixed_item svc (store w)) ''items''
       ''Error retrieving gallery items: '' media_type limit offset folder_path tags w"

section \<open>GET /sas-tokens\<close>

record SasTokenResponse =
  sas_success :: bool
  sas_message :: string
  video_sas_token :: string
  image_sas_token :: string
  video_container_url :: string
  image_container_url :: string
  sas_response_expiry :: int

text \<open>Time in seconds; \<open>timedelta(hours=h)\<close>.\<close>

definition timedelta_hours :: "int \<Rightarrow> int" where
  "timedelta_hours h = h * 3600"

definition read_only :: ContainerSasPermissions where
  "read_only = \<lparr> perm_read = True, perm_write = False, perm_delete = False, perm_list = False \<rparr>"

definition video_token_args :: "settings \<Rightarrow> int \<Rightarrow> container_sas_args" where
  "video_token_args st now =
     \<lparr> sas_account_name = AZURE_STORAGE_ACCOUNT_NAME st,
       sas_container_name = AZURE_BLOB_VIDEO_CONTAINER st,
       sas_account_key = AZURE_STORAGE_ACCOUNT_KEY st,
       sas_permission = read_only,
       sas_expiry = now + timedelta_hours 1 \<rparr>"

definition image_token_args :: "settings \<Rightarrow> int \<Rightarrow> container_sas_args" where
  "image_token_args st now =
     \<lparr> sas_account_name = AZURE_STORAGE_ACCOUNT_NAME st,
       sas_container_name = AZURE_BLOB_IMAGE_CONTAINER st,
       sas_account_key = AZURE_STORAGE_ACCOUNT_KEY st,
       sas_permission = read_only,
       sas_expiry = now + timedelta_hours 1 \<rparr>"

text \<open>
  \<open>get_sas_tokens\<close> reads the clock three times: \<open>now1\<close> when the video token is
  made, \<open>now2\<close> when the image token is made, \<open>now3\<close> for the \<open>expiry\<close> field.
\<close>

definition get_sas_tokens ::
  "'s services \<Rightarrow> settings \<Rightarrow> int \<Rightarrow> int \<Rightarrow> int \<Rightarrow> exn + SasTokenResponse" where
  "get_sas_tokens svc st now1 now2 now3 =
     (let body =
        try_bind (generate_container_sas svc (video_token_args st now1)) (\<lambda>video_token.
        try_bind (generate_container_sas svc (image_token_args st now2)) (\<lambda>image_token.
          Inr \<lparr> sas_success = True,
                sas_message = ''SAS tokens generated successfully'',
                video_sas_token = video_token,
                image_sas_token = image_token,
                video_container_url =
                  ''https://'' @ AZURE_STORAGE_ACCOUNT_NAME st @ ''.blob.core.windows.net/'' @
                  AZURE_BLOB_VIDEO_CONTAINER st,
                image_container_url =
                  ''https://'' @ AZURE_STORAGE_ACCOUNT_NAME st @ ''.blob.core.windows.net/'' @
                  AZURE_BLOB_IMAGE_CONTAINER st,
                sas_response_expiry = now3 + timedelta_hours 1 \<rparr>))
      in (case body of Inl e \<Rightarrow> Inl (HTTPException 500) | Inr r \<Rightarrow> Inr r))"

section \<open>GET /health\<close>

record health_status =
  azure_blob_storage_status :: scalar
  cosmos_db_status :: scalar
  ai_services_status :: scalar
  overall_status :: string

text \<open>The loop over the two containers: the first exception ends it.\<close>

fun ensure_containers :: "'s services \<Rightarrow> string list \<Rightarrow> 's \<Rightarrow> (exn + unit) \<times> 's" where
  "ensure_containers svc [] s = (Inr (), s)"
| "ensure_containers svc (c # cs) s =
     (case blob_ensure_container_exists svc c s of
        (Inl e, s') \<Rightarrow> (Inl e, s')
      | (Inr u, s') \<Rightarrow> ensure_containers svc cs s')"

text \<open>
  \<open>health_check\<close>. \<open>ai_clients\<close> is the outcome of importing \<open>sora_client\<close>,
  \<open>dalle_client\<close> and \<open>llm_client\<close> from \<open>backend.core\<close>: an exception, or the
  truthiness of the three clients. The status of each service is kept, its other fields
  (message, error, timestamp) are left out.
\<close>

definition health_check ::
  "'s services \<Rightarrow> settings \<Rightarrow> exn + (bool \<times> bool \<times> bool) \<Rightarrow> CosmosDBService option \<Rightarrow> 's \<Rightarrow>
   health_status \<times> 's" where
  "health_check svc st ai_clients cosmos_service s =
     (let overall0 = ''healthy'';
          (blob_outcome, s1) =
             ensure_containers svc
               [AZURE_BLOB_IMAGE_CONTAINER st, AZURE_BLOB_VIDEO_CONTAINER st] s;
          (blob_status, overall1) =
             (case blob_outcome of
                Inr u \<Rightarrow> (SStr ''healthy'', overall0)
              | Inl e \<Rightarrow> (SStr ''unhealthy'', ''degraded''));
          (cosmos_status, overall2) =
             (case cosmos_service of
                None \<Rightarrow> (SStr ''unavailable'', ''degraded'')
              | Some c \<Rightarrow>
                  (case cosmos_health_check svc s1 of
                     Inl e \<Rightarrow> (SStr ''unhealthy'', ''degraded'')
                   | Inr cosmos_health \<Rightarrow>
                       (case cosmos_health ''status'' of
                          None \<Rightarrow> (SStr ''unhealthy'', ''degraded'')
                        | Some status \<Rightarrow>
                            (status,
                             if status \<noteq> SStr ''healthy'' then ''degraded'' else overall1))));
          (ai_status, overall3) =
             (case ai_clients of
                Inl e \<Rightarrow> (SStr ''unhealthy'', ''degraded'')
              | Inr (sora_client, dalle_client, llm_client) \<Rightarrow>
                  (if sora_client \<or> dalle_client \<or> llm_client
                   then SStr ''healthy'' else SStr ''unhealthy'',
                   overall2))
      in (\<lparr> azure_blob_storage_status = blob_status,
             cosmos_db_status = cosmos_status,
             ai_services_status = ai_status,
             overall_status = overall3 \<rparr>, s1))"

definition route_health ::
  "'s services \<Rightarrow> settings \<Rightarrow> exn + (bool \<times> bool \<times> bool) \<Rightarrow> 's world \<Rightarrow>
   (exn + health_status) \<times> 's world" where
  "route_health svc st ai_clients w =
     (case get_cosmos_service svc st of
        (Inl e, msgs) \<Rightarrow> (Inl e, w\<lparr>logged := logged w @ msgs\<rparr>)
      | (Inr c, msgs) \<Rightarrow>
          (case health_check svc st ai_clients (Some c) (store w) of
             (h, s1) \<Rightarrow> (Inr h, w\<lparr>store := s1, logged := logged w @ msgs\<rparr>)))"

section \<open>An in-memory instance of the services\<close>

text \<open>
  Modelled from the spec: the blob store and the metadata store behind the two service
  classes, following the contracts of sections 4.1 and 4.2. The blob store holds
  (container, blob name) pairs, the metadata store holds documents. The handlers are run
  on this instance at concrete requests; the general theorems hold for every instance
  of \<open>services\<close>.
\<close>

record mem_store =
  blobs :: "(string \<times> string) list"
  documents :: "asset_doc list"
  containers :: "string list"

definition doc_is :: "string \<Rightarrow> string \<Rightarrow> asset_doc \<Rightarrow> bool" where
  "doc_is asset_id mt d =
     (doc_fields d ''id'' = Some (SStr asset_id) \<and> doc_fields d ''media_type'' = Some (SStr mt))"

definition doc_matches :: "query_args \<Rightarrow> asset_doc \<Rightarrow> bool" where
  "doc_matches q d =
     ((case q_media_type q of None \<Rightarrow> True
       | Some mt \<Rightarrow> doc_fields d ''media_type'' = Some (SStr mt)) \<and>
      (case q_folder_path q of None \<Rightarrow> True
       | Some fp \<Rightarrow> doc_fields d ''folder_path'' = Some (SStr fp)) \<and>
      (case q_tags q of None \<Rightarrow> True
       | Some ts \<Rightarrow> list_ex (\<lambda>t. t \<in> set ts) (tags_or_empty d)))"

text \<open>
  Modelled from the spec: \<open>query\<close> filters by media type, folder and tags (a document
  matches when it has one of the tags), returns the page at \<open>offset\<close> of at most
  \<open>limit\<close> documents and the number of all matching documents.
\<close>

definition mem_query_assets :: "query_args \<Rightarrow> mem_store \<Rightarrow> exn + query_result" where
  "mem_query_assets q s =
     (let matching = filter (doc_matches q) (documents s)
      in Inr \<lparr> result_items = take (nat (q_limit q)) (drop (nat (q_offset q)) matching),
               result_total = int (length matching) \<rparr>)"

fun json_scalar :: "json \<Rightarrow> scalar" where
  "json_scalar (JBool b) = SBool b"
| "json_scalar (JNum n) = SInt n"
| "json_scalar (JStr s) = SStr s"
| "json_scalar j = SNone"

definition doc_of_request :: "AssetMetadataCreateRequest \<Rightarrow> asset_doc" where
  "doc_of_request r =
     \<lparr> doc_fields =
         [ ''id'' \<mapsto> SStr (asset_id_of (req_blob_name r)),
           ''media_type'' \<mapsto> SStr (req_media_type r),
           ''blob_name'' \<mapsto> SStr (req_blob_name r),
           ''container'' \<mapsto> SStr (req_container r),
           ''url'' \<mapsto> SStr (req_url r),
           ''filename'' \<mapsto> SStr (req_filename r),
           ''size'' \<mapsto> SInt (int (req_size r)),
           ''content_type'' \<mapsto> SStr (req_content_type r),
           ''folder_path'' \<mapsto> SStr (req_folder_path r),
           ''created_at'' \<mapsto> SStr ''2025-01-01T00:00:00Z'',
           ''updated_at'' \<mapsto> SStr ''2025-01-01T00:00:00Z'' ],
       doc_tags = None,
       doc_custom_metadata =
         (case req_custom_metadata r of
            Some (JObj kvs) \<Rightarrow> Some (map_of (map (\<lambda>kv. (fst kv, json_scalar (snd kv))) kvs))
          | _ \<Rightarrow> None) \<rparr>"

text \<open>
  Modelled from the spec: \<open>create\<close> fails with a validation error when a required
  field (here the blob name) is absent, and otherwise replaces the record of the same
  identifier.
\<close>

definition mem_create_asset_metadata ::
  "AssetMetadataCreateRequest \<Rightarrow> mem_store \<Rightarrow> (exn + unit) \<times> mem_store" where
  "mem_create_asset_metadata r s =
     (if req_blob_name r = [] then (Inl (ServiceError ''ValidationError''), s)
      else (Inr (),
            s\<lparr>documents :=
                filter (\<lambda>d. \<not> doc_is (asset_id_of (req_blob_name r)) (req_media_type r) d)
                  (documents s) @ [doc_of_request r]\<rparr>))"

text \<open>Modelled from the spec: \<open>delete(id, media_type)\<close> fails with a not-found error if absent.\<close>

definition mem_delete_asset_metadata ::
  "string \<Rightarrow> string \<Rightarrow> mem_store \<Rightarrow> (exn + unit) \<times> mem_store" where
  "mem_delete_asset_metadata asset_id mt s =
     (if list_ex (doc_is asset_id mt) (documents s)
      then (Inr (), s\<lparr>documents := filter (\<lambda>d. \<not> doc_is asset_id mt d) (documents s)\<rparr>)
      else (Inl (ServiceError ''NotFoundError''), s))"

text \<open>
  Modelled from the spec: \<open>upload\<close> checks the extension against the allow-list of the
  media type and stores the blob under its folder and file name in the container of the
  media type.
\<close>

definition mem_upload_asset ::
  "UploadFile \<Rightarrow> string \<Rightarrow> json option \<Rightarrow> string option \<Rightarrow> mem_store \<Rightarrow>
   (exn + upload_result) \<times> mem_store" where
  "mem_upload_asset file mt metadata folder_path s =
     (case filename file of
        None \<Rightarrow> (Inl (ServiceError ''InvalidFileTypeError''), s)
      | Some fname \<Rightarrow>
          (if \<not> list_ex (endswith (lower fname))
                  (valid_types (if mt = ''image'' then IMAGE else VIDEO))
           then (Inl (ServiceError ''InvalidFileTypeError''), s)
           else
             (let folder = (case folder_path of None \<Rightarrow> [] | Some fp \<Rightarrow> fp);
                  blob_name = (if folder = [] then fname else folder @ ''/'' @ fname);
                  container_name = mt @ ''s''
              in (Inr \<lparr> res_blob_name = blob_name,
                        res_container = container_name,
                        res_url = ''https://mem.blob.core.windows.net/'' @ container_name @
                                  ''/'' @ blob_name,
                        res_original_filename = fname,
                        res_size = length (file_content file),
                        res_content_type = ''application/octet-stream'',
                        res_folder_path = folder \<rparr>,
                  s\<lparr>blobs := (container_name, blob_name) # blobs s\<rparr>))))"

text \<open>Modelled from the spec: \<open>delete\<close> is true if removed, false if not found.\<close>

definition mem_delete_asset :: "string \<Rightarrow> string \<Rightarrow> mem_store \<Rightarrow> (exn + bool) \<times> mem_store" where
  "mem_delete_asset blob_name container_name s =
     (if (container_name, blob_name) \<in> set (blobs s)
      then (Inr True, s\<lparr>blobs := removeAll (container_name, blob_name) (blobs s)\<rparr>)
      else (Inr False, s))"

definition mem_get_asset_content ::
  "string \<Rightarrow> string \<Rightarrow> mem_store \<Rightarrow> exn + (string option \<times> string option)" where
  "mem_get_asset_content blob_name container_name s =
     (if (container_name, blob_name) \<in> set (blobs s)
      then Inr (Some ''bytes'', Some ''application/octet-stream'')
      else Inr (None, None))"

text \<open>
  Modelled from the spec: a signed URL for a blob name and a container; names that are
  not strings are rejected.
\<close>

fun mem_generate_blob_sas_url :: "scalar \<Rightarrow> scalar \<Rightarrow> nat \<Rightarrow> mem_store \<Rightarrow> exn + string" where
  "mem_generate_blob_sas_url (SStr blob_name) (SStr container_name) hours s =
     Inr (''https://mem.blob.core.windows.net/'' @ container_name @ ''/'' @ blob_name @
          ''?se='' @ str_nat hours @ ''h'')"
| "mem_generate_blob_sas_url blob_name container_name hours s = Inl TypeError"

text \<open>Modelled from the spec: \<open>ensureContainerExists\<close> creates if absent, no-op otherwise.\<close>

definition mem_ensure_container_exists :: "string \<Rightarrow> mem_store \<Rightarrow> (exn + unit) \<times> mem_store" where
  "mem_ensure_container_exists c s =
     (if c \<in> set (containers s) then (Inr (), s)
      else (Inr (), s\<lparr>containers := containers s @ [c]\<rparr>))"

text \<open>A metadata form field and the dictionary it parses to.\<close>

definition sample_metadata :: string where
  "sample_metadata = ''{\"a\": null, \"b\": [1], \"c\": \"x\"}''"

definition sample_dict :: "(string \<times> json) list" where
  "sample_dict = [(''a'', JNull), (''b'', JArr [JNum 1]), (''c'', JStr ''x'')]"

text \<open>A stand-in for \<open>json.loads\<close> that knows two texts and rejects every other one.\<close>

definition mem_json_loads :: "string \<Rightarrow> json option" where
  "mem_json_loads text =
     (if text = sample_metadata
      then Some (JObj sample_dict)
      else if text = ''[1]'' then Some (JArr [JNum 1])
      else None)"

text \<open>A stand-in for \<open>json.dumps\<close>: the kind of the value only.\<close>

fun mem_json_dumps :: "json \<Rightarrow> string" where
  "mem_json_dumps (JArr xs) = ''[...]''"
| "mem_json_dumps (JObj kvs) = ''{...}''"
| "mem_json_dumps (JStr s) = s"
| "mem_json_dumps j = ''scalar''"

definition mem_generate_container_sas :: "container_sas_args \<Rightarrow> exn + string" where
  "mem_generate_container_sas a =
     Inr (''sr=c&sp='' @ (if perm_read (sas_permission a) then ''r'' else []) @
          ''&se='' @ str_int (sas_expiry a) @ ''&c='' @ sas_container_name a)"

definition mem_services :: "mem_store services" where
  "mem_services =
     \<lparr> cosmos_init = None,
       cosmos_query_assets = mem_query_assets,
       cosmos_create_asset_metadata = mem_create_asset_metadata,
       cosmos_delete_asset_metadata = mem_delete_asset_metadata,
       cosmos_health_check = (\<lambda>s. Inr [''status'' \<mapsto> SStr ''healthy'']),
       blob_upload_asset = mem_upload_asset,
       blob_delete_asset = mem_delete_asset,
       blob_get_asset_content = mem_get_asset_content,
       blob_generate_blob_sas_url = mem_generate_blob_sas_url,
       blob_ensure_container_exists = mem_ensure_container_exists,
       json_loads = mem_json_loads,
       json_dumps = mem_json_dumps,
       generate_container_sas = mem_generate_container_sas \<rparr>"

definition mem_settings :: settings where
  "mem_settings =
     \<lparr> AZURE_COSMOS_DB_ENDPOINT = Some ''https://mem.documents.azure.com'',
       AZURE_COSMOS_DB_KEY = Some ''key'',
       USE_MANAGED_IDENTITY = False,
       AZURE_BLOB_IMAGE_CONTAINER = ''images'',
       AZURE_BLOB_VIDEO_CONTAINER = ''videos'',
       AZURE_STORAGE_ACCOUNT_NAME = ''mem'',
       AZURE_STORAGE_ACCOUNT_KEY = ''secret'' \<rparr>"

text \<open>The same settings with no metadata store endpoint.\<close>

definition unconfigured_settings :: settings where
  "unconfigured_settings = mem_settings\<lparr>AZURE_COSMOS_DB_ENDPOINT := None\<rparr>"

definition empty_store :: mem_store where
  "empty_store = \<lparr> blobs = [], documents = [], containers = [] \<rparr>"

definition empty_world :: "mem_store world" where
  "empty_world = \<lparr> store = empty_store, logged = [] \<rparr>"

text \<open>The metadata store configured, but every create and delete call raises.\<close>

definition outage_services :: "mem_store services" where
  "outage_services =
     mem_services
       \<lparr> cosmos_create_asset_metadata := (\<lambda>r s. (Inl (ServiceError ''unreachable''), s)),
         cosmos_delete_asset_metadata := (\<lambda>i m s. (Inl (ServiceError ''unreachable''), s)) \<rparr>"

text \<open>The metadata store configured, but its client cannot be constructed.\<close>

definition down_services :: "mem_store services" where
  "down_services = mem_services \<lparr> cosmos_init := Some (ServiceError ''unreachable'') \<rparr>"

text \<open>The metadata store out of reach: its client and every one of its operations raise.\<close>

definition dead_services :: "mem_store services" where
  "dead_services =
     mem_services
       \<lparr> cosmos_init := Some (ServiceError ''unreachable''),
         cosmos_query_assets := (\<lambda>q s. Inl (ServiceError ''unreachable'')),
         cosmos_create_asset_metadata := (\<lambda>r s. (Inl (ServiceError ''unreachable''), s)),
         cosmos_delete_asset_metadata := (\<lambda>i m s. (Inl (ServiceError ''unreachable''), s)),
         cosmos_health_check := (\<lambda>s. Inl (ServiceError ''unreachable'')) \<rparr>"


definition png_file :: UploadFile where
  "png_file = \<lparr> filename = Some ''cat.PNG'', file_content = ''bytes'' \<rparr>"

definition txt_file :: UploadFile where
  "txt_file = \<lparr> filename = Some ''notes.txt'', file_content = ''bytes'' \<rparr>"

text \<open>An image document with tags and custom metadata, and no \<open>has_transparency\<close> key.\<close>

definition cat_doc :: asset_doc where
  "cat_doc =
     \<lparr> doc_fields =
         [ ''id'' \<mapsto> SStr ''cat'',
           ''media_type'' \<mapsto> SStr ''image'',
           ''blob_name'' \<mapsto> SStr ''cat.png'',
           ''container'' \<mapsto> SStr ''images'',
           ''size'' \<mapsto> SInt 5,
           ''created_at'' \<mapsto> SStr ''2025-01-01T00:00:00Z'',
           ''updated_at'' \<mapsto> SStr ''2025-01-01T00:00:00Z'',
           ''prompt'' \<mapsto> SStr ''a cat'' ],
       doc_tags = Some [''pets'', ''cats''],
       doc_custom_metadata = Some [ ''prompt'' \<mapsto> SStr ''my prompt'' ] \<rparr>"

text \<open>The same document with a blob name that is not a string: no URL can be made for it.\<close>

definition broken_doc :: asset_doc where
  "broken_doc = cat_doc \<lparr> doc_fields := (doc_fields cat_doc)(''blob_name'' \<mapsto> SNone) \<rparr>"

text \<open>A store with the cat image and its document.\<close>

definition cat_world :: "mem_store world" where
  "cat_world =
     \<lparr> store = \<lparr> blobs = [(''images'', ''cat.png'')], documents = [cat_doc],
                 containers = [''images'', ''videos''] \<rparr>,
       logged = [] \<rparr>"

text \<open>The gallery item of the cat document in the image listing.\<close>

definition cat_item :: GalleryItem where
  "cat_item =
     \<lparr> item_id = SStr ''cat'', item_name = SStr ''cat.png'', item_media_type = IMAGE,
       item_url = ''https://mem.blob.core.windows.net/images/cat.png?se=24h'',
       item_container = SStr ''images'', item_size = SInt 5, item_content_type = SNone,
       item_creation_time = SStr ''2025-01-01T00:00:00Z'',
       item_last_modified = SStr ''2025-01-01T00:00:00Z'',
       item_metadata = image_metadata cat_doc, item_folder_path = SStr [] \<rparr>"

text \<open>A store whose first document is broken and whose second one is fine.\<close>

definition mixed_world :: "mem_store world" where
  "mixed_world =
     \<lparr> store = \<lparr> blobs = [(''images'', ''cat.png'')], documents = [broken_doc, cat_doc],
                 containers = [''images'', ''videos''] \<rparr>,
       logged = [] \<rparr>"

text \<open>A store with the document of the cat image, but without its blob.\<close>

definition orphan_world :: "mem_store world" where
  "orphan_world =
     \<lparr> store = \<lparr> blobs = [], documents = [cat_doc], containers = [''images'', ''videos''] \<rparr>,
       logged = [] \<rparr>"

section \<open>The specification's wording\<close>

text \<open>
  What the specification says of one metadata value: a null is removed, a dict or a list
  becomes its serialised text, anything else passes through.
\<close>

fun normalized_value :: "(json \<Rightarrow> string) \<Rightarrow> json \<Rightarrow> json option" where
  "normalized_value dumps JNull = None"
| "normalized_value dumps (JObj kvs) = Some (JStr (dumps (JObj kvs)))"
| "normalized_value dumps (JArr xs) = Some (JStr (dumps (JArr xs)))"
| "normalized_value dumps v = Some v"

text \<open>
  The last slash-separated segment of the part of the blob name before its first dot.
\<close>

definition spec_asset_id :: "string \<Rightarrow> string" where
  "spec_asset_id blob_name =
     rev (takeWhile (\<lambda>c. c \<noteq> CHR ''/'') (rev (takeWhile (\<lambda>c. c \<noteq> CHR ''.'') blob_name)))"

text \<open>
  The metadata store is configured: an endpoint, and a key or managed identity.
\<close>

definition configured :: "settings \<Rightarrow> bool" where
  "configured st =
     (str_truthy (AZURE_COSMOS_DB_ENDPOINT st) \<and>
      (str_truthy (AZURE_COSMOS_DB_KEY st) \<or> USE_MANAGED_IDENTITY st))"

text \<open>An exception that is not an \<open>HTTPException\<close>.\<close>

fun not_http :: "exn \<Rightarrow> bool" where
  "not_http (HTTPException c) = False"
| "not_http e = True"

text \<open>The built-in metadata keys of an image item and of a video item.\<close>

definition image_keys :: "string list" where
  "image_keys = [''prompt'', ''model'', ''summary'', ''description'', ''products'', ''tags'',
     ''quality'', ''background'', ''output_format'', ''has_transparency'', ''generation_id'']"

definition video_keys :: "string list" where
  "video_keys = [''prompt'', ''model'', ''summary'', ''description'', ''products'', ''tags'',
     ''generation_id'', ''duration'', ''resolution'', ''fps'']"

text \<open>A built-in key is absent from a document.\<close>

definition absent_from :: "asset_doc \<Rightarrow> string \<Rightarrow> bool" where
  "absent_from m k = (if k = ''tags'' then doc_tags m = None else doc_fields m k = None)"

text \<open>The text an absent built-in key is given.\<close>

definition default_text :: "string \<Rightarrow> string" where
  "default_text k = (if k = ''has_transparency'' then ''False'' else [])"

section \<open>Helper lemmas\<close>

lemma map_of_dict_del: "map_of (dict_del k d) k' = (if k' = k then None else map_of d k')"
  by (induction k d rule: dict_del.induct) auto

lemma map_of_dict_set: "map_of (dict_set k v d) = (map_of d)(k \<mapsto> v)"
  by (induction k v d rule: dict_set.induct) auto

lemma map_of_normalize_item:
  "map_of (normalize_item dumps (k, v) d) k' =
     (if k' = k then (if normalized_value dumps v = Some v then map_of d k else normalized_value dumps v)
      else map_of d k')"
  by (cases v) (simp_all add: map_of_dict_del map_of_dict_set)

lemma map_of_fold_normalize:
  "distinct (map fst xs) \<Longrightarrow>
   map_of (fold (normalize_item dumps) xs d) k =
     (case map_of xs k of
        None \<Rightarrow> map_of d k
      | Some v \<Rightarrow> (if normalized_value dumps v = Some v then map_of d k else normalized_value dumps v))"
proof (induction xs arbitrary: d)
  case Nil
  then show ?case by simp
next
  case (Cons x xs)
  obtain k' v where x: "x = (k', v)" by (cases x)
  from Cons.prems have notin: "k' \<notin> fst ` set xs" and dist: "distinct (map fst xs)"
    by (simp_all add: x)
  from notin have none: "map_of xs k' = None"
    by (simp add: map_of_eq_None_iff)
  show ?case
  proof (cases "k = k'")
    case True
    then show ?thesis
      using Cons.IH [OF dist, of "normalize_item dumps (k', v) d"] none
      by (simp add: x map_of_normalize_item)
  next
    case False
    then show ?thesis
      using Cons.IH [OF dist, of "normalize_item dumps (k', v) d"]
      by (simp add: x map_of_normalize_item split: option.splits)
  qed
qed

lemma map_of_normalize_metadata:
  assumes "distinct (map fst d)"
  shows "map_of (normalize_metadata dumps d) k =
           (case map_of d k of None \<Rightarrow> None | Some v \<Rightarrow> normalized_value dumps v)"
  unfolding normalize_metadata_def
  by (simp add: map_of_fold_normalize [OF assms] split: option.splits)

lemma py_split_nonempty: "py_split sep s \<noteq> []"
  by (induction s) (auto split: list.splits)

lemma hd_py_split: "hd (py_split sep s) = takeWhile (\<lambda>c. c \<noteq> sep) s"
  by (induction s) (auto split: list.splits simp: py_split_nonempty)

lemma py_split_no_sep: "sep \<notin> set s \<Longrightarrow> py_split sep s = [s]"
  by (induction s) auto

lemma py_split_sep: "sep \<in> set s \<Longrightarrow> \<exists>w ws. py_split sep s = w # ws \<and> ws \<noteq> []"
proof (induction s)
  case Nil
  then show ?case by simp
next
  case (Cons c cs)
  show ?case
  proof (cases "c = sep")
    case True
    then show ?thesis by (simp add: py_split_nonempty)
  next
    case False
    with Cons.prems have "sep \<in> set cs" by simp
    from Cons.IH [OF this] obtain w ws where "py_split sep cs = w # ws" "ws \<noteq> []" by blast
    with False show ?thesis by simp
  qed
qed

lemma takeWhile_rev_snoc:
  "takeWhile (\<lambda>c. c \<noteq> sep) (rev cs @ [c]) =
     (if sep \<in> set cs then takeWhile (\<lambda>c. c \<noteq> sep) (rev cs)
      else if c = sep then rev cs else rev cs @ [c])"
proof (cases "sep \<in> set cs")
  case True
  then have "\<exists>x\<in>set (rev cs). \<not> x \<noteq> sep" by simp
  then obtain x where "x \<in> set (rev cs)" "\<not> x \<noteq> sep" by blast
  then show ?thesis using True by (simp add: takeWhile_append1)
next
  case False
  have "takeWhile (\<lambda>c. c \<noteq> sep) (rev cs @ [c]) = rev cs @ takeWhile (\<lambda>c. c \<noteq> sep) [c]"
    by (rule takeWhile_append2) (use False in auto)
  then show ?thesis using False by simp
qed

lemma last_py_split: "last (py_split sep s) = rev (takeWhile (\<lambda>c. c \<noteq> sep) (rev s))"
proof (induction s)
  case Nil
  then show ?case by simp
next
  case (Cons c cs)
  show ?case
  proof (cases "sep \<in> set cs")
    case True
    from py_split_sep [OF True] obtain w ws where
      sp: "py_split sep cs = w # ws" "ws \<noteq> []" by blast
    then show ?thesis using Cons True
      by (simp add: takeWhile_rev_snoc)
  next
    case False
    then show ?thesis
      by (simp add: takeWhile_rev_snoc py_split_no_sep)
  qed
qed

lemma asset_id_of_spec: "asset_id_of blob_name = spec_asset_id blob_name"
  by (simp add: asset_id_of_def spec_asset_id_def hd_py_split last_py_split)

lemma mem_services_simps:
  "cosmos_init mem_services = None"
  "cosmos_query_assets mem_services = mem_query_assets"
  "cosmos_create_asset_metadata mem_services = mem_create_asset_metadata"
  "cosmos_delete_asset_metadata mem_services = mem_delete_asset_metadata"
  "cosmos_health_check mem_services = (\<lambda>s. Inr [''status'' \<mapsto> SStr ''healthy''])"
  "blob_upload_asset mem_services = mem_upload_asset"
  "blob_delete_asset mem_services = mem_delete_asset"
  "blob_get_asset_content mem_services = mem_get_asset_content"
  "blob_generate_blob_sas_url mem_services = mem_generate_blob_sas_url"
  "blob_ensure_container_exists mem_services = mem_ensure_container_exists"
  "json_loads mem_services = mem_json_loads"
  "json_dumps mem_services = mem_json_dumps"
  "generate_container_sas mem_services = mem_generate_container_sas"
  by (simp_all add: mem_services_def)

lemma mem_settings_simps:
  "AZURE_COSMOS_DB_ENDPOINT mem_settings = Some ''https://mem.documents.azure.com''"
  "AZURE_COSMOS_DB_KEY mem_settings = Some ''key''"
  "USE_MANAGED_IDENTITY mem_settings = False"
  "AZURE_BLOB_IMAGE_CONTAINER mem_settings = ''images''"
  "AZURE_BLOB_VIDEO_CONTAINER mem_settings = ''videos''"
  "AZURE_STORAGE_ACCOUNT_NAME mem_settings = ''mem''"
  "AZURE_STORAGE_ACCOUNT_KEY mem_settings = ''secret''"
  by (simp_all add: mem_settings_def)

lemma get_cosmos_service_mem:
  "get_cosmos_service mem_services mem_settings = (Inr CosmosDBService, [])"
  by (simp add: get_cosmos_service_def mem_services_simps mem_settings_simps)

lemma lower_cat: "lower ''cat.PNG'' = ''cat.png''"
  by (simp add: lower_def lower_char_def)

lemma lower_notes: "lower ''notes.txt'' = ''notes.txt''"
  by (simp add: lower_def lower_char_def)

lemma png_file_valid: "list_ex (endswith (lower ''cat.PNG'')) (valid_types IMAGE)"
  by (simp add: lower_cat endswith_def)

lemma txt_file_invalid: "\<not> list_ex (endswith (lower ''notes.txt'')) (valid_types IMAGE)"
  by (simp add: lower_notes endswith_def)

lemma upload_asset_bad_extension:
  assumes "filename file = Some fname"
    and "\<not> list_ex (endswith (lower fname)) (valid_types media_type)"
  shows "upload_asset svc file media_type metadata folder_path cosmos_service w =
           (Inl (HTTPException 500),
            w\<lparr>logged := logged w @ [Printed ''Upload error: '' (HTTPException 400),
                                    Printed ''Error trace: '' (HTTPException 400)]\<rparr>)"
  using assms by (simp add: upload_asset_def upload_body_def)

lemma upload_asset_bad_json:
  assumes "filename file = Some fname"
    and "list_ex (endswith (lower fname)) (valid_types media_type)"
    and "text \<noteq> []"
    and "json_loads svc text = None"
  shows "upload_asset svc file media_type (Some text) folder_path cosmos_service w =
           (Inl (HTTPException 500),
            w\<lparr>logged := logged w @ [Printed ''Upload error: '' (HTTPException 400),
                                    Printed ''Error trace: '' (HTTPException 400)]\<rparr>)"
  using assms by (simp add: upload_asset_def upload_body_def parse_metadata_def)

lemma upload_asset_cosmos_raises:
  assumes "filename file = Some fname"
    and "list_ex (endswith (lower fname)) (valid_types media_type)"
    and "parse_metadata svc metadata = Inr metadata_dict"
    and "blob_upload_asset svc file (media_value media_type) metadata_dict folder_path (store w)
           = (Inr result, s1)"
    and "cosmos_create_asset_metadata svc (create_request media_type result metadata_dict) s1
           = (Inl e, s2)"
  shows "upload_asset svc file media_type metadata folder_path (Some c) w =
           (Inr \<lparr> up_success = True,
                   up_message = capitalize (media_value media_type) @ '' uploaded successfully'',
                   up_result = result \<rparr>,
            w\<lparr>store := s2,
              logged := logged w @ [LogWarning ''Failed to create Cosmos DB metadata: '' e]\<rparr>)"
  using assms by (simp add: upload_asset_def upload_body_def)

lemma delete_asset_cosmos_raises:
  assumes "resolve_container st media_type container = Inr container_name"
    and "cosmos_delete_asset_metadata svc (asset_id_of blob_name)
           (media_type_str st container_name) (store w) = (Inl e, s1)"
    and "blob_delete_asset svc blob_name container_name s1 = (Inr success, s2)"
  shows "delete_asset svc st blob_name media_type container (Some c) w =
           (if success
            then Inr \<lparr> del_success = True, del_message = ''Asset deleted successfully'',
                       del_blob_name = blob_name, del_container = container_name \<rparr>
            else Inl (HTTPException 404),
            w\<lparr>store := s2,
              logged := logged w @ [LogWarning ''Failed to delete Cosmos DB metadata: '' e]\<rparr>)"
  using assms by (simp add: delete_asset_def delete_body_def delete_metadata_first_def)

lemma try_bind_Inr_iff: "try_bind x f = Inr y \<longleftrightarrow> (\<exists>a. x = Inr a \<and> f a = Inr y)"
  by (cases x) auto

lemma project_loop_fails:
  "m \<in> set ms \<Longrightarrow> f m = Inl e \<Longrightarrow> \<exists>e'. project_loop f ms acc = Inl e'"
proof (induction ms arbitrary: acc)
  case Nil
  then show ?case by simp
next
  case (Cons a ms)
  show ?case
  proof (cases "f a")
    case (Inl e0)
    then show ?thesis by simp
  next
    case (Inr it)
    with Cons.prems have "m \<in> set ms" by auto
    from Cons.IH [OF this Cons.prems(2)] Inr show ?thesis by simp
  qed
qed

lemma project_loop_all:
  "project_loop f ms acc = Inr its \<Longrightarrow> list_all P acc \<Longrightarrow>
   (\<And>m it. m \<in> set ms \<Longrightarrow> f m = Inr it \<Longrightarrow> P it) \<Longrightarrow> list_all P its"
proof (induction ms arbitrary: acc)
  case Nil
  then show ?case by simp
next
  case (Cons a ms)
  from Cons.prems(1) obtain it where it: "f a = Inr it"
    and rest: "project_loop f ms (acc @ [it]) = Inr its"
    by (cases "f a") auto
  have "P it" using Cons.prems(3) [of a it] it by simp
  with Cons.prems(2) have acc': "list_all P (acc @ [it])" by simp
  show ?case
    by (rule Cons.IH [OF rest acc']) (use Cons.prems(3) in auto)
qed

lemma sas_url_of_fails:
  "doc_fields m ''blob_name'' = Some b \<Longrightarrow> doc_fields m ''container'' = Some cn \<Longrightarrow>
   blob_generate_blob_sas_url svc b cn 24 s = Inl e \<Longrightarrow> sas_url_of svc s m = Inl e"
  by (simp add: sas_url_of_def getitem_def)

lemma typed_item_fails: "sas_url_of svc s m = Inl e \<Longrightarrow> typed_item svc s mt build m = Inl e"
  by (simp add: typed_item_def)

lemma mixed_item_fails: "sas_url_of svc s m = Inl e \<Longrightarrow> mixed_item svc s m = Inl e"
  by (simp add: mixed_item_def)

lemma listing_fails:
  assumes "cosmos_query_assets svc
             \<lparr> q_media_type = media_type, q_folder_path = folder_path,
               q_tags = parse_tags tags, q_limit = limit, q_offset = offset,
               q_order_by = ''created_at'', q_order_desc = True \<rparr> (store w) = Inr result"
    and "m \<in> set (result_items result)"
    and "f m = Inl e"
  shows "\<exists>e'. listing svc f noun err media_type limit offset folder_path tags w =
           (Inl (HTTPException 500), w\<lparr>logged := logged w @ [LogError err e']\<rparr>)"
proof -
  from project_loop_fails [where f = f and m = m, OF assms(2,3)] obtain e' where
    "project_loop f (result_items result) [] = Inl e'" by blast
  with assms(1) show ?thesis by (auto simp: listing_def)
qed

lemma listing_items:
  assumes "listing svc f noun err media_type limit offset folder_path tags w = (Inr resp, w')"
    and "\<And>m it. f m = Inr it \<Longrightarrow> P it"
  shows "list_all P (resp_items resp)"
proof -
  have "\<exists>result::query_result. project_loop f (result_items result) [] = Inr (resp_items resp)"
    using assms(1)
    by (auto simp: listing_def Let_def try_bind_Inr_iff split: sum.splits)
  then obtain result :: query_result where
    loop: "project_loop f (result_items result) [] = Inr (resp_items resp)" by blast
  show ?thesis
    by (rule project_loop_all [OF loop]) (use assms(2) in auto)
qed

lemma sas_url_of_ok:
  "sas_url_of svc s m = Inr u \<Longrightarrow>
   \<exists>b cn. doc_fields m ''blob_name'' = Some b \<and> doc_fields m ''container'' = Some cn \<and>
          blob_generate_blob_sas_url svc b cn 24 s = Inr u"
  by (auto simp: sas_url_of_def getitem_def try_bind_Inr_iff split: option.splits)

lemma typed_item_url:
  assumes "typed_item svc s mt build m = Inr it"
  shows "blob_generate_blob_sas_url svc (item_name it) (item_container it) 24 s = Inr (item_url it)"
proof -
  from assms obtain u where u: "sas_url_of svc s m = Inr u" and iu: "item_url it = u"
    and nm: "doc_fields m ''blob_name'' = Some (item_name it)"
    and ct: "doc_fields m ''container'' = Some (item_container it)"
    by (auto simp: typed_item_def Let_def try_bind_Inr_iff getitem_def split: option.splits)
  from sas_url_of_ok [OF u] nm ct iu show ?thesis by simp
qed

lemma mixed_item_url:
  assumes "mixed_item svc s m = Inr it"
  shows "blob_generate_blob_sas_url svc (item_name it) (item_container it) 24 s = Inr (item_url it)"
proof -
  from assms obtain u where u: "sas_url_of svc s m = Inr u" and iu: "item_url it = u"
    and nm: "doc_fields m ''blob_name'' = Some (item_name it)"
    and ct: "doc_fields m ''container'' = Some (item_container it)"
    by (auto simp: mixed_item_def Let_def try_bind_Inr_iff getitem_def split: option.splits)
  from sas_url_of_ok [OF u] nm ct iu show ?thesis by simp
qed

lemma outage_services_simps:
  "cosmos_init outage_services = None"
  "cosmos_create_asset_metadata outage_services = (\<lambda>r s. (Inl (ServiceError ''unreachable''), s))"
  "cosmos_delete_asset_metadata outage_services = (\<lambda>i m s. (Inl (ServiceError ''unreachable''), s))"
  "blob_upload_asset outage_services = mem_upload_asset"
  "blob_delete_asset outage_services = mem_delete_asset"
  "json_loads outage_services = mem_json_loads"
  "json_dumps outage_services = mem_json_dumps"
  by (simp_all add: outage_services_def mem_services_def)

lemma down_services_simps:
  "cosmos_init down_services = Some (ServiceError ''unreachable'')"
  "blob_upload_asset down_services = mem_upload_asset"
  "blob_delete_asset down_services = mem_delete_asset"
  "blob_get_asset_content down_services = mem_get_asset_content"
  by (simp_all add: down_services_def mem_services_def)

lemma dead_services_simps:
  "cosmos_init dead_services = Some (ServiceError ''unreachable'')"
  "blob_get_asset_content dead_services = mem_get_asset_content"
  by (simp_all add: dead_services_def mem_services_def)


lemma resolve_container_image:
  "resolve_container mem_settings (Some IMAGE) None = Inr ''images''"
  by (simp add: resolve_container_def mem_settings_simps)

lemma asset_id_of_cat: "asset_id_of ''cat.png'' = ''cat''"
  by (simp add: asset_id_of_def)

lemma media_type_str_images: "media_type_str mem_settings ''images'' = ''image''"
  by (simp add: media_type_str_def mem_settings_simps)

lemma mem_upload_png:
  "mem_upload_asset png_file ''image'' None None empty_store =
     (Inr \<lparr> res_blob_name = ''cat.PNG'', res_container = ''images'',
             res_url = ''https://mem.blob.core.windows.net/images/cat.PNG'',
             res_original_filename = ''cat.PNG'', res_size = 5,
             res_content_type = ''application/octet-stream'', res_folder_path = [] \<rparr>,
      empty_store\<lparr>blobs := [(''images'', ''cat.PNG'')]\<rparr>)"
  by (simp add: mem_upload_asset_def png_file_def lower_cat endswith_def empty_store_def Let_def)

lemma delete_asset_resolved:
  assumes "resolve_container st media_type container = Inr container_name"
  shows "delete_asset svc st blob_name media_type container (Some c) w =
     (case cosmos_delete_asset_metadata svc (asset_id_of blob_name)
             (media_type_str st container_name) (store w) of
        (r, sa) \<Rightarrow>
          (case blob_delete_asset svc blob_name container_name sa of
             (b, sb) \<Rightarrow>
               (case b of
                  Inl (HTTPException code) \<Rightarrow> Inl (HTTPException code)
                | Inl e \<Rightarrow> Inl (HTTPException 500)
                | Inr success \<Rightarrow>
                    if success
                    then Inr \<lparr> del_success = True, del_message = ''Asset deleted successfully'',
                               del_blob_name = blob_name, del_container = container_name \<rparr>
                    else Inl (HTTPException 404),
                w\<lparr>store := sb,
                  logged := logged w @
                    (case r of
                       Inl e \<Rightarrow> [LogWarning ''Failed to delete Cosmos DB metadata: '' e]
                     | Inr u \<Rightarrow> [])\<rparr>)))"
proof -
  obtain r sa where m: "cosmos_delete_asset_metadata svc (asset_id_of blob_name)
             (media_type_str st container_name) (store w) = (r, sa)"
    by (cases "cosmos_delete_asset_metadata svc (asset_id_of blob_name)
             (media_type_str st container_name) (store w)")
  obtain b sb where bd: "blob_delete_asset svc blob_name container_name sa = (b, sb)"
    by (cases "blob_delete_asset svc blob_name container_name sa")
  show ?thesis
    using assms m bd
    by (cases r; cases b)
      (simp_all add: delete_asset_def delete_body_def delete_metadata_first_def
        split: exn.splits)
qed

lemma mem_delete_orphan:
  assumes "list_ex (doc_is asset_id mt) (documents s)"
    and "(container_name, blob_name) \<notin> set (blobs s)"
  shows "mem_delete_asset_metadata asset_id mt s =
           (Inr (), s\<lparr>documents := filter (\<lambda>d. \<not> doc_is asset_id mt d) (documents s)\<rparr>)"
    and "mem_delete_asset blob_name container_name
           (s\<lparr>documents := filter (\<lambda>d. \<not> doc_is asset_id mt d) (documents s)\<rparr>) =
           (Inr False, s\<lparr>documents := filter (\<lambda>d. \<not> doc_is asset_id mt d) (documents s)\<rparr>)"
  using assms by (simp_all add: mem_delete_asset_metadata_def mem_delete_asset_def)

lemma filter_removes:
  assumes "list_ex P xs"
  shows "filter (\<lambda>x. \<not> P x) xs \<noteq> xs"
proof -
  from assms obtain x where "x \<in> set xs" "P x" by (auto simp: list_ex_iff)
  then have "length (filter (\<lambda>x. \<not> P x) xs) < length xs"
    by (intro length_filter_less) auto
  then show ?thesis by auto
qed

lemma cat_doc_is_cat: "doc_is ''cat'' ''image'' cat_doc"
  by (simp add: doc_is_def cat_doc_def)

lemma get_cosmos_service_unconfigured:
  "\<not> configured st \<Longrightarrow> get_cosmos_service svc st = (Inl (HTTPException 503), [])"
  by (auto simp: configured_def get_cosmos_service_def)

lemma get_cosmos_service_down:
  "configured st \<Longrightarrow> cosmos_init svc = Some e \<Longrightarrow> not_http e \<Longrightarrow>
   get_cosmos_service svc st =
     (Inl (HTTPException 503), [LogError ''Cosmos DB service initialization failed: '' e])"
  by (cases e) (auto simp: configured_def get_cosmos_service_def)

lemma get_cosmos_service_ok:
  "configured st \<Longrightarrow> cosmos_init svc = None \<Longrightarrow>
   get_cosmos_service svc st = (Inr CosmosDBService, [])"
  by (auto simp: configured_def get_cosmos_service_def)

lemma get_asset_content_blob_only:
  assumes "blob_get_asset_content svc' = blob_get_asset_content svc"
    and "AZURE_BLOB_IMAGE_CONTAINER st' = AZURE_BLOB_IMAGE_CONTAINER st"
    and "AZURE_BLOB_VIDEO_CONTAINER st' = AZURE_BLOB_VIDEO_CONTAINER st"
  shows "get_asset_content svc' st' media_type blob_name s =
         get_asset_content svc st media_type blob_name s"
  using assms by (simp add: get_asset_content_def)


lemma mem_cat_content:
  "get_asset_content mem_services mem_settings IMAGE ''cat.png'' (store cat_world) =
     Inr \<lparr> stream_content = ''bytes'', stream_media_type = Some ''application/octet-stream'',
           stream_filename = ''cat.png'' \<rparr>"
  by (simp add: get_asset_content_def mem_services_simps mem_settings_simps
      mem_get_asset_content_def cat_world_def)

lemma unconfigured_settings_containers:
  "AZURE_BLOB_IMAGE_CONTAINER unconfigured_settings = AZURE_BLOB_IMAGE_CONTAINER mem_settings"
  "AZURE_BLOB_VIDEO_CONTAINER unconfigured_settings = AZURE_BLOB_VIDEO_CONTAINER mem_settings"
  by (simp_all add: unconfigured_settings_def)

lemma unconfigured_settings_not_configured: "\<not> configured unconfigured_settings"
  by (simp add: configured_def unconfigured_settings_def)

lemma mem_settings_configured: "configured mem_settings"
  by (simp add: configured_def mem_settings_simps)

lemma filename_png_file: "filename png_file = Some ''cat.PNG''"
  by (simp add: png_file_def)

lemma outage_upload_steps:
  "parse_metadata outage_services None = Inr None"
  "blob_upload_asset outage_services png_file (media_value IMAGE) None None (store empty_world) =
     (Inr \<lparr> res_blob_name = ''cat.PNG'', res_container = ''images'',
             res_url = ''https://mem.blob.core.windows.net/images/cat.PNG'',
             res_original_filename = ''cat.PNG'', res_size = 5,
             res_content_type = ''application/octet-stream'', res_folder_path = [] \<rparr>,
      empty_store\<lparr>blobs := [(''images'', ''cat.PNG'')]\<rparr>)"
  "cosmos_create_asset_metadata outage_services r s = (Inl (ServiceError ''unreachable''), s)"
  by (simp_all add: parse_metadata_def outage_services_simps mem_upload_png empty_world_def)

lemma outage_delete_steps:
  "cosmos_delete_asset_metadata outage_services i m s = (Inl (ServiceError ''unreachable''), s)"
  "blob_delete_asset outage_services ''cat.png'' ''images'' (store cat_world)
     = (Inr True, (store cat_world)\<lparr>blobs := []\<rparr>)"
  by (simp_all add: outage_services_simps mem_delete_asset_def cat_world_def)

lemma cat_doc_fields:
  "doc_fields cat_doc ''id'' = Some (SStr ''cat'')"
  "doc_fields cat_doc ''media_type'' = Some (SStr ''image'')"
  "doc_fields cat_doc ''blob_name'' = Some (SStr ''cat.png'')"
  "doc_fields cat_doc ''container'' = Some (SStr ''images'')"
  "doc_fields cat_doc ''size'' = Some (SInt 5)"
  "doc_fields cat_doc ''created_at'' = Some (SStr ''2025-01-01T00:00:00Z'')"
  "doc_fields cat_doc ''updated_at'' = Some (SStr ''2025-01-01T00:00:00Z'')"
  "doc_fields cat_doc ''has_transparency'' = None"
  "doc_fields cat_doc ''content_type'' = None"
  "doc_fields cat_doc ''folder_path'' = None"
  "doc_tags cat_doc = Some [''pets'', ''cats'']"
  "custom_or_empty cat_doc ''has_transparency'' = None"
  "custom_or_empty cat_doc ''prompt'' = Some (SStr ''my prompt'')"
  by (simp_all add: cat_doc_def custom_or_empty_def)

lemma broken_doc_fields:
  "doc_fields broken_doc ''media_type'' = Some (SStr ''image'')"
  "doc_fields broken_doc ''blob_name'' = Some SNone"
  "doc_fields broken_doc ''container'' = Some (SStr ''images'')"
  "doc_fields broken_doc ''folder_path'' = None"
  by (simp_all add: broken_doc_def cat_doc_def)

lemma image_query_matches:
  "doc_matches \<lparr> q_media_type = Some ''image'', q_folder_path = None, q_tags = None,
                  q_limit = l, q_offset = off, q_order_by = ob, q_order_desc = od \<rparr> cat_doc"
  "doc_matches \<lparr> q_media_type = Some ''image'', q_folder_path = None, q_tags = None,
                  q_limit = l, q_offset = off, q_order_by = ob, q_order_desc = od \<rparr> broken_doc"
  "doc_matches \<lparr> q_media_type = None, q_folder_path = None, q_tags = None,
                  q_limit = l, q_offset = off, q_order_by = ob, q_order_desc = od \<rparr> cat_doc"
  "doc_matches \<lparr> q_media_type = None, q_folder_path = None, q_tags = None,
                  q_limit = l, q_offset = off, q_order_by = ob, q_order_desc = od \<rparr> broken_doc"
  "\<not> doc_matches \<lparr> q_media_type = Some ''video'', q_folder_path = None, q_tags = None,
                  q_limit = l, q_offset = off, q_order_by = ob, q_order_desc = od \<rparr> cat_doc"
  "\<not> doc_matches \<lparr> q_media_type = Some ''video'', q_folder_path = None, q_tags = None,
                  q_limit = l, q_offset = off, q_order_by = ob, q_order_desc = od \<rparr> broken_doc"
  by (simp_all add: doc_matches_def cat_doc_fields broken_doc_fields)

lemma mixed_world_query:
  "cosmos_query_assets mem_services
     \<lparr> q_media_type = Some ''image'', q_folder_path = None, q_tags = parse_tags None,
       q_limit = 50, q_offset = 0, q_order_by = ''created_at'', q_order_desc = True \<rparr>
     (store mixed_world) = Inr \<lparr> result_items = [broken_doc, cat_doc], result_total = 2 \<rparr>"
  "cosmos_query_assets mem_services
     \<lparr> q_media_type = None, q_folder_path = None, q_tags = parse_tags None,
       q_limit = 50, q_offset = 0, q_order_by = ''created_at'', q_order_desc = True \<rparr>
     (store mixed_world) = Inr \<lparr> result_items = [broken_doc, cat_doc], result_total = 2 \<rparr>"
  "cosmos_query_assets mem_services
     \<lparr> q_media_type = Some ''video'', q_folder_path = None, q_tags = parse_tags None,
       q_limit = 50, q_offset = 0, q_order_by = ''created_at'', q_order_desc = True \<rparr>
     (store mixed_world) = Inr \<lparr> result_items = [], result_total = 0 \<rparr>"
  by (simp_all add: mem_services_simps mem_query_assets_def parse_tags_def mixed_world_def
      image_query_matches)

lemma cat_world_query:
  "cosmos_query_assets mem_services
     \<lparr> q_media_type = Some ''image'', q_folder_path = None, q_tags = parse_tags None,
       q_limit = 50, q_offset = 0, q_order_by = ''created_at'', q_order_desc = True \<rparr>
     (store cat_world) = Inr \<lparr> result_items = [cat_doc], result_total = 1 \<rparr>"
  by (simp add: mem_services_simps mem_query_assets_def parse_tags_def cat_world_def
      image_query_matches)

lemma broken_doc_url_fails:
  "blob_generate_blob_sas_url mem_services SNone (SStr ''images'') 24 s = Inl TypeError"
  by (simp add: mem_services_simps)

lemma str_nat_small:
  "str_nat 1 = ''1''" "str_nat 24 = ''24''" "str_nat (Suc 0) = ''1''"
  by (simp_all add: str_nat.simps)

lemma cat_doc_url:
  "blob_generate_blob_sas_url mem_services (SStr ''cat.png'') (SStr ''images'') 24 s =
     Inr ''https://mem.blob.core.windows.net/images/cat.png?se=24h''"
  by (simp add: mem_services_simps str_nat_small)

lemma image_metadata_custom:
  "custom_or_empty m k = Some v \<Longrightarrow> image_metadata m k = Some v"
  by (simp add: image_metadata_def Let_def map_add_def)

lemma video_metadata_custom:
  "custom_or_empty m k = Some v \<Longrightarrow> video_metadata m k = Some v"
  by (simp add: video_metadata_def Let_def map_add_def)

lemma item_metadata_of_custom:
  "custom_or_empty m k = Some v \<Longrightarrow> item_metadata_of m = Inr md \<Longrightarrow> md k = Some v"
  by (auto simp: item_metadata_of_def Let_def try_bind_Inr_iff map_add_def)

lemma image_keys_cases:
  assumes "k \<in> set image_keys"
  shows "k = ''prompt'' \<or> k = ''model'' \<or> k = ''summary'' \<or> k = ''description'' \<or>
      k = ''products'' \<or> k = ''tags'' \<or> k = ''quality'' \<or> k = ''background'' \<or>
      k = ''output_format'' \<or> k = ''has_transparency'' \<or> k = ''generation_id''"
  using assms by (simp add: image_keys_def)

lemma video_keys_cases:
  assumes "k \<in> set video_keys"
  shows "k = ''prompt'' \<or> k = ''model'' \<or> k = ''summary'' \<or> k = ''description'' \<or>
      k = ''products'' \<or> k = ''tags'' \<or> k = ''generation_id'' \<or> k = ''duration'' \<or>
      k = ''resolution'' \<or> k = ''fps''"
  using assms by (simp add: video_keys_def)

lemma image_metadata_default:
  assumes "custom_or_empty m k = None" and "absent_from m k" and "k \<in> set image_keys"
  shows "image_metadata m k = Some (SStr (default_text k))"
  using image_keys_cases [OF assms(3)] assms(1,2)
  by (elim disjE)
    (simp_all add: image_metadata_def Let_def map_add_def absent_from_def default_text_def
      get_or_def tags_or_empty_def)

lemma video_metadata_default:
  assumes "custom_or_empty m k = None" and "absent_from m k" and "k \<in> set video_keys"
  shows "video_metadata m k = Some (SStr (default_text k))"
  using video_keys_cases [OF assms(3)] assms(1,2)
  by (elim disjE)
    (simp_all add: video_metadata_def Let_def map_add_def absent_from_def default_text_def
      get_or_def tags_or_empty_def)

lemma item_metadata_of_image:
  assumes "doc_fields m ''media_type'' = Some (SStr ''image'')"
  shows "item_metadata_of m = Inr (image_metadata m)"
  using assms
  by (simp add: item_metadata_of_def Let_def getitem_def fun_eq_iff image_metadata_def
      map_add_def split: option.splits)

lemma item_metadata_of_video:
  assumes "doc_fields m ''media_type'' = Some mt" and "mt \<noteq> SStr ''image''"
  shows "item_metadata_of m = Inr (video_metadata m)"
  using assms
  by (simp add: item_metadata_of_def Let_def getitem_def fun_eq_iff video_metadata_def
      map_add_def split: option.splits)

lemma item_metadata_of_image_default:
  assumes "custom_or_empty m k = None" and "absent_from m k" and "k \<in> set image_keys"
    and "doc_fields m ''media_type'' = Some (SStr ''image'')"
    and "item_metadata_of m = Inr md"
  shows "md k = Some (SStr (default_text k))"
proof -
  from item_metadata_of_image [OF assms(4)] assms(5) have md: "md = image_metadata m"
    by simp
  show ?thesis
    unfolding md by (rule image_metadata_default [OF assms(1,2,3)])
qed

lemma item_metadata_of_video_default:
  assumes "custom_or_empty m k = None" and "absent_from m k" and "k \<in> set video_keys"
    and "doc_fields m ''media_type'' = Some mt" and "mt \<noteq> SStr ''image''"
    and "item_metadata_of m = Inr md"
  shows "md k = Some (SStr (default_text k))"
proof -
  from item_metadata_of_video [OF assms(4,5)] assms(6) have md: "md = video_metadata m"
    by simp
  show ?thesis
    unfolding md by (rule video_metadata_default [OF assms(1,2,3)])
qed

lemma item_metadata_of_media_type:
  "item_metadata_of m = Inr md \<Longrightarrow> \<exists>mt. doc_fields m ''media_type'' = Some mt"
  by (auto simp: item_metadata_of_def Let_def try_bind_Inr_iff getitem_def split: option.splits)

lemma typed_item_cat:
  "typed_item mem_services s IMAGE image_metadata cat_doc = Inr cat_item"
  by (simp add: typed_item_def sas_url_of_def getitem_def get_or_def cat_doc_fields cat_doc_url
      cat_item_def)

lemma cat_world_images:
  "get_gallery_images mem_services 50 0 None None cat_world =
     (Inr \<lparr> resp_success = True, resp_message = ''Retrieved 1 images from Cosmos DB'',
             resp_total = 1, resp_limit = 50, resp_offset = 0, resp_items = [cat_item],
             resp_continuation_token = None, resp_folders = None \<rparr>, cat_world)"
  by (simp add: get_gallery_images_def listing_def cat_world_query typed_item_cat str_nat_small)

lemma get_sas_tokens_Inr:
  assumes "get_sas_tokens svc st now1 now2 now3 = Inr r"
  shows "generate_container_sas svc (video_token_args st now1) = Inr (video_sas_token r)"
    and "generate_container_sas svc (image_token_args st now2) = Inr (image_sas_token r)"
    and "sas_response_expiry r = now3 + 3600"
  using assms
  by (auto simp: get_sas_tokens_def Let_def try_bind_Inr_iff timedelta_hours_def
      split: sum.splits)

lemma get_sas_tokens_ok:
  assumes "generate_container_sas svc (video_token_args st now1) = Inr vt"
    and "generate_container_sas svc (image_token_args st now2) = Inr it"
  shows "\<exists>r. get_sas_tokens svc st now1 now2 now3 = Inr r \<and>
             video_sas_token r = vt \<and> image_sas_token r = it"
  using assms by (simp add: get_sas_tokens_def)

lemma token_args_explicit:
  "video_token_args st now =
     \<lparr> sas_account_name = AZURE_STORAGE_ACCOUNT_NAME st,
       sas_container_name = AZURE_BLOB_VIDEO_CONTAINER st,
       sas_account_key = AZURE_STORAGE_ACCOUNT_KEY st,
       sas_permission = \<lparr> perm_read = True, perm_write = False, perm_delete = False,
                          perm_list = False \<rparr>,
       sas_expiry = now + 3600 \<rparr>"
  "image_token_args st now =
     \<lparr> sas_account_name = AZURE_STORAGE_ACCOUNT_NAME st,
       sas_container_name = AZURE_BLOB_IMAGE_CONTAINER st,
       sas_account_key = AZURE_STORAGE_ACCOUNT_KEY st,
       sas_permission = \<lparr> perm_read = True, perm_write = False, perm_delete = False,
                          perm_list = False \<rparr>,
       sas_expiry = now + 3600 \<rparr>"
  by (simp_all add: video_token_args_def image_token_args_def read_only_def timedelta_hours_def)

lemma listing_urls:
  assumes "listing svc f noun err media_type limit offset folder_path tags w = (Inr resp, w')"
    and "\<And>m it. f m = Inr it \<Longrightarrow>
           blob_generate_blob_sas_url svc (item_name it) (item_container it) 24 (store w)
             = Inr (item_url it)"
  shows "\<forall>it\<in>set (resp_items resp).
           blob_generate_blob_sas_url svc (item_name it) (item_container it) 24 (store w)
             = Inr (item_url it)"
  using listing_items [OF assms(1), where P = "\<lambda>it.
           blob_generate_blob_sas_url svc (item_name it) (item_container it) 24 (store w)
             = Inr (item_url it)"] assms(2)
  by (simp add: list_all_iff)

lemma str_int_expiry: "str_int 4600 = ''4600''" "str_int 4601 = ''4601''"
  by (simp_all add: str_int_def str_nat.simps)

lemma mem_tokens:
  "generate_container_sas mem_services (video_token_args mem_settings 1000)
     = Inr ''sr=c&sp=r&se=4600&c=videos''"
  "generate_container_sas mem_services (image_token_args mem_settings 1001)
     = Inr ''sr=c&sp=r&se=4601&c=images''"
  by (simp_all add: mem_services_simps mem_generate_container_sas_def token_args_explicit
      mem_settings_simps str_int_expiry)



lemma mem_health_check:
  "health_check mem_services mem_settings (Inr (a, b, c)) (Some CosmosDBService)
     (store cat_world) =
     (\<lparr> azure_blob_storage_status = SStr ''healthy'', cosmos_db_status = SStr ''healthy'',
        ai_services_status = (if a \<or> b \<or> c then SStr ''healthy'' else SStr ''unhealthy''),
        overall_status = ''healthy'' \<rparr>, store cat_world)"
  "health_check mem_services mem_settings (Inl ImportError) (Some CosmosDBService)
     (store cat_world) =
     (\<lparr> azure_blob_storage_status = SStr ''healthy'', cosmos_db_status = SStr ''healthy'',
        ai_services_status = SStr ''unhealthy'',
        overall_status = ''degraded'' \<rparr>, store cat_world)"
  by (simp_all add: health_check_def mem_services_simps mem_settings_simps
      mem_ensure_container_exists_def cat_world_def)

text \<open>
  With the import of the AI clients succeeding and none of them available, the AI
  services are reported unhealthy and the overall status stays healthy: this branch of
  \<open>health_check\<close> does not set the overall status, the \<open>except\<close> branch beside it does.
\<close>

lemma health_no_ai_client_stays_healthy:
  "route_health mem_services mem_settings (Inr (False, False, False)) cat_world =
     (Inr \<lparr> azure_blob_storage_status = SStr ''healthy'', cosmos_db_status = SStr ''healthy'',
             ai_services_status = SStr ''unhealthy'', overall_status = ''healthy'' \<rparr>,
      cat_world)"
proof -
  have lg: "cat_world\<lparr>store := store cat_world, logged := logged cat_world @ []\<rparr> = cat_world"
    by simp
  show ?thesis
    by (simp only: route_health_def get_cosmos_service_mem mem_health_check prod.case
        sum.case lg) simp
qed

section \<open>The claims\<close>

text \<open>
  C1 (the code departs from the claim). A file name with a disallowed extension, or a
  metadata field that is not JSON, raises HTTP 400 inside the \<open>try\<close> block of
  \<open>upload_asset\<close>; its \<open>except Exception\<close> clause catches that exception and answers
  HTTP 500. No store is touched.
\<close>

theorem upload_bad_request_is_500:
  "route_upload mem_services mem_settings txt_file IMAGE None None empty_world =
     (Inl (HTTPException 500),
      empty_world\<lparr>logged := [Printed ''Upload error: '' (HTTPException 400),
                              Printed ''Error trace: '' (HTTPException 400)]\<rparr>)
   \<and> route_upload mem_services mem_settings png_file IMAGE (Some ''{oops'') None empty_world =
     (Inl (HTTPException 500),
      empty_world\<lparr>logged := [Printed ''Upload error: '' (HTTPException 400),
                              Printed ''Error trace: '' (HTTPException 400)]\<rparr>)"
proof -
  have a: "filename txt_file = Some ''notes.txt''" and b: "filename png_file = Some ''cat.PNG''"
    by (simp_all add: txt_file_def png_file_def)
  have c: "json_loads mem_services ''{oops'' = None"
    by (simp add: mem_services_simps mem_json_loads_def sample_metadata_def)
  have d: "''{oops'' \<noteq> []" by simp
  show ?thesis
    by (simp add: route_upload_def get_cosmos_service_mem
        upload_asset_bad_extension [OF a txt_file_invalid]
        upload_asset_bad_json [OF b png_file_valid d c] empty_world_def)
qed

text \<open>
  C10. When the metadata field parses to a dictionary, the dictionary that is stored has,
  for every key, no entry if the value was null, the \<open>json.dumps\<close> text if the value was
  a dict or a list, and the value itself otherwise.
\<close>

theorem upload_metadata_normalized:
  assumes "text \<noteq> []"
    and "json_loads svc text = Some (JObj d)"
    and "distinct (map fst d)"
  shows "\<exists>d'. parse_metadata svc (Some text) = Inr (Some (JObj d')) \<and>
              (\<forall>k. map_of d' k =
                 (case map_of d k of None \<Rightarrow> None
                  | Some v \<Rightarrow> normalized_value (json_dumps svc) v))"
proof (cases "d = []")
  case True
  with assms show ?thesis by (simp add: parse_metadata_def)
next
  case False
  with assms(1,2) have "parse_metadata svc (Some text) =
      Inr (Some (JObj (normalize_metadata (json_dumps svc) d)))"
    by (simp add: parse_metadata_def)
  with map_of_normalize_metadata [OF assms(3)] show ?thesis by blast
qed

theorem upload_metadata_normalized_witness:
  "sample_metadata \<noteq> [] \<and>
   json_loads mem_services sample_metadata = Some (JObj sample_dict) \<and>
   distinct (map fst sample_dict) \<and>
   (\<exists>d'. parse_metadata mem_services (Some sample_metadata) = Inr (Some (JObj d')) \<and>
         map_of d' ''a'' = None \<and>
         map_of d' ''b'' = Some (JStr ''[...]'') \<and>
         map_of d' ''c'' = Some (JStr ''x''))"
proof -
  have h1: "sample_metadata \<noteq> []" by (simp add: sample_metadata_def)
  have h2: "json_loads mem_services sample_metadata = Some (JObj sample_dict)"
    by (simp add: mem_services_simps mem_json_loads_def)
  have h3: "distinct (map fst sample_dict)" by (simp add: sample_dict_def)
  from upload_metadata_normalized [OF h1 h2 h3] obtain d' where
    p: "parse_metadata mem_services (Some sample_metadata) = Inr (Some (JObj d'))"
    and l: "\<And>k. map_of d' k =
                 (case map_of sample_dict k of None \<Rightarrow> None
                  | Some v \<Rightarrow> normalized_value (json_dumps mem_services) v)"
    by blast
  have "map_of d' ''a'' = None" "map_of d' ''b'' = Some (JStr ''[...]'')"
    "map_of d' ''c'' = Some (JStr ''x'')"
    by (simp_all add: l sample_dict_def mem_services_simps)
  with h1 h2 h3 p show ?thesis by blast
qed

text \<open>
  C4. When the metadata store is there and its create or delete call raises, the
  exception is logged as a warning and the response is the one the blob store's outcome
  gives: an upload whose blob is stored reports success, a delete reports success when
  the blob was removed and HTTP 404 when it was not found.
\<close>

theorem metadata_failure_is_not_fatal:
  "(filename upload = Some fname \<and>
    list_ex (endswith (lower fname)) (valid_types media_type) \<and>
    parse_metadata svc metadata = Inr metadata_dict \<and>
    blob_upload_asset svc upload (media_value media_type) metadata_dict folder_path (store w)
      = (Inr result, sa) \<and>
    cosmos_create_asset_metadata svc (create_request media_type result metadata_dict) sa
      = (Inl e, sb)
    \<longrightarrow>
    upload_asset svc upload media_type metadata folder_path (Some c) w =
      (Inr \<lparr> up_success = True,
              up_message = capitalize (media_value media_type) @ '' uploaded successfully'',
              up_result = result \<rparr>,
       w\<lparr>store := sb,
         logged := logged w @ [LogWarning ''Failed to create Cosmos DB metadata: '' e]\<rparr>))
   \<and>
   (resolve_container st dmedia_type container = Inr container_name \<and>
    cosmos_delete_asset_metadata svc (asset_id_of blob_name)
      (media_type_str st container_name) (store w) = (Inl e', sc) \<and>
    blob_delete_asset svc blob_name container_name sc = (Inr success, sd)
    \<longrightarrow>
    delete_asset svc st blob_name dmedia_type container (Some c) w =
      (if success
       then Inr \<lparr> del_success = True, del_message = ''Asset deleted successfully'',
                  del_blob_name = blob_name, del_container = container_name \<rparr>
       else Inl (HTTPException 404),
       w\<lparr>store := sd,
         logged := logged w @ [LogWarning ''Failed to delete Cosmos DB metadata: '' e']\<rparr>))"
proof (intro conjI impI)
  assume "filename upload = Some fname \<and>
    list_ex (endswith (lower fname)) (valid_types media_type) \<and>
    parse_metadata svc metadata = Inr metadata_dict \<and>
    blob_upload_asset svc upload (media_value media_type) metadata_dict folder_path (store w)
      = (Inr result, sa) \<and>
    cosmos_create_asset_metadata svc (create_request media_type result metadata_dict) sa
      = (Inl e, sb)"
  then show "upload_asset svc upload media_type metadata folder_path (Some c) w =
      (Inr \<lparr> up_success = True,
              up_message = capitalize (media_value media_type) @ '' uploaded successfully'',
              up_result = result \<rparr>,
       w\<lparr>store := sb,
         logged := logged w @ [LogWarning ''Failed to create Cosmos DB metadata: '' e]\<rparr>)"
    by (elim conjE) (rule upload_asset_cosmos_raises)
next
  assume "resolve_container st dmedia_type container = Inr container_name \<and>
    cosmos_delete_asset_metadata svc (asset_id_of blob_name)
      (media_type_str st container_name) (store w) = (Inl e', sc) \<and>
    blob_delete_asset svc blob_name container_name sc = (Inr success, sd)"
  then show "delete_asset svc st blob_name dmedia_type container (Some c) w =
      (if success
       then Inr \<lparr> del_success = True, del_message = ''Asset deleted successfully'',
                  del_blob_name = blob_name, del_container = container_name \<rparr>
       else Inl (HTTPException 404),
       w\<lparr>store := sd,
         logged := logged w @ [LogWarning ''Failed to delete Cosmos DB metadata: '' e']\<rparr>)"
    by (elim conjE) (rule delete_asset_cosmos_raises)
qed

theorem metadata_failure_is_not_fatal_witness:
  "cosmos_create_asset_metadata outage_services
     (create_request IMAGE
        \<lparr> res_blob_name = ''cat.PNG'', res_container = ''images'',
          res_url = ''https://mem.blob.core.windows.net/images/cat.PNG'',
          res_original_filename = ''cat.PNG'', res_size = 5,
          res_content_type = ''application/octet-stream'', res_folder_path = [] \<rparr> None)
     (empty_store\<lparr>blobs := [(''images'', ''cat.PNG'')]\<rparr>)
     = (Inl (ServiceError ''unreachable''), empty_store\<lparr>blobs := [(''images'', ''cat.PNG'')]\<rparr>)
   \<and> upload_asset outage_services png_file IMAGE None None (Some CosmosDBService) empty_world =
       (Inr \<lparr> up_success = True, up_message = ''Image uploaded successfully'',
               up_result =
                 \<lparr> res_blob_name = ''cat.PNG'', res_container = ''images'',
                   res_url = ''https://mem.blob.core.windows.net/images/cat.PNG'',
                   res_original_filename = ''cat.PNG'', res_size = 5,
                   res_content_type = ''application/octet-stream'', res_folder_path = [] \<rparr> \<rparr>,
        \<lparr> store = empty_store\<lparr>blobs := [(''images'', ''cat.PNG'')]\<rparr>,
          logged = [LogWarning ''Failed to create Cosmos DB metadata: ''
                      (ServiceError ''unreachable'')] \<rparr>)
   \<and> cosmos_delete_asset_metadata outage_services ''cat'' ''image'' (store cat_world)
       = (Inl (ServiceError ''unreachable''), store cat_world)
   \<and> delete_asset outage_services mem_settings ''cat.png'' (Some IMAGE) None
         (Some CosmosDBService) cat_world =
       (Inr \<lparr> del_success = True, del_message = ''Asset deleted successfully'',
               del_blob_name = ''cat.png'', del_container = ''images'' \<rparr>,
        \<lparr> store = (store cat_world)\<lparr>blobs := []\<rparr>,
          logged = [LogWarning ''Failed to delete Cosmos DB metadata: ''
                      (ServiceError ''unreachable'')] \<rparr>)"
proof -
  let ?res = "\<lparr> res_blob_name = ''cat.PNG'', res_container = ''images'',
          res_url = ''https://mem.blob.core.windows.net/images/cat.PNG'',
          res_original_filename = ''cat.PNG'', res_size = 5,
          res_content_type = ''application/octet-stream'', res_folder_path = [] \<rparr>"
  let ?s1 = "empty_store\<lparr>blobs := [(''images'', ''cat.PNG'')]\<rparr>"
  have u1: "filename png_file = Some ''cat.PNG''" by (simp add: png_file_def)
  have u2: "parse_metadata outage_services None = Inr None" by (simp add: parse_metadata_def)
  have u3: "blob_upload_asset outage_services png_file (media_value IMAGE) None None
              (store empty_world) = (Inr ?res, ?s1)"
    by (simp add: outage_services_simps mem_upload_png empty_world_def)
  have u4: "cosmos_create_asset_metadata outage_services (create_request IMAGE ?res None) ?s1
              = (Inl (ServiceError ''unreachable''), ?s1)"
    by (simp add: outage_services_simps)
  have d1: "cosmos_delete_asset_metadata outage_services (asset_id_of ''cat.png'')
              (media_type_str mem_settings ''images'') (store cat_world)
              = (Inl (ServiceError ''unreachable''), store cat_world)"
    by (simp add: outage_services_simps)
  have d2: "blob_delete_asset outage_services ''cat.png'' ''images'' (store cat_world)
              = (Inr True, (store cat_world)\<lparr>blobs := []\<rparr>)"
    by (simp add: outage_services_simps mem_delete_asset_def cat_world_def)
  note inst = metadata_failure_is_not_fatal [where upload = png_file and fname = "''cat.PNG''"
      and media_type = IMAGE and svc = outage_services and metadata = None
      and metadata_dict = None and folder_path = None and w = empty_world and result = "?res"
      and sa = "?s1" and e = "ServiceError ''unreachable''" and sb = "?s1"
      and c = CosmosDBService]
  have up: "upload_asset outage_services png_file IMAGE None None (Some CosmosDBService)
              empty_world =
              (Inr \<lparr> up_success = True,
                      up_message = capitalize (media_value IMAGE) @ '' uploaded successfully'',
                      up_result = ?res \<rparr>,
               empty_world\<lparr>store := ?s1,
                 logged := logged empty_world @
                   [LogWarning ''Failed to create Cosmos DB metadata: ''
                      (ServiceError ''unreachable'')]\<rparr>)"
    using inst [THEN conjunct1] u1 png_file_valid u2 u3 u4 by blast
  note inst' = metadata_failure_is_not_fatal [where st = mem_settings
      and dmedia_type = "Some IMAGE" and container = None and container_name = "''images''"
      and svc = outage_services and blob_name = "''cat.png''" and w = cat_world
      and e' = "ServiceError ''unreachable''" and sc = "store cat_world" and success = True
      and sd = "(store cat_world)\<lparr>blobs := []\<rparr>" and c = CosmosDBService]
  have del: "delete_asset outage_services mem_settings ''cat.png'' (Some IMAGE) None
               (Some CosmosDBService) cat_world =
               (Inr \<lparr> del_success = True, del_message = ''Asset deleted successfully'',
                       del_blob_name = ''cat.png'', del_container = ''images'' \<rparr>,
                cat_world\<lparr>store := (store cat_world)\<lparr>blobs := []\<rparr>,
                  logged := logged cat_world @
                    [LogWarning ''Failed to delete Cosmos DB metadata: ''
                       (ServiceError ''unreachable'')]\<rparr>)"
    using inst' [THEN conjunct2] resolve_container_image d1 d2 by simp
  show ?thesis
    using up del u4 d1
    by (simp add: upper_char_def lower_char_def asset_id_of_cat media_type_str_images
        empty_world_def cat_world_def)
qed

text \<open>
  C9. On every delete request whose container is resolved, the handler is the
  following: it calls the metadata store's delete with the last slash-separated segment
  of the part of the blob name before its first dot, and with \<open>image\<close> exactly when
  the container is the configured image container and \<open>video\<close> otherwise; then it
  deletes the blob.
\<close>

theorem delete_metadata_call_arguments:
  assumes "resolve_container st media_type container = Inr container_name"
  shows "delete_asset svc st blob_name media_type container (Some c) w =
     (case cosmos_delete_asset_metadata svc (spec_asset_id blob_name)
             (if container_name = AZURE_BLOB_IMAGE_CONTAINER st then ''image'' else ''video'')
             (store w) of
        (r, sa) \<Rightarrow>
          (case blob_delete_asset svc blob_name container_name sa of
             (b, sb) \<Rightarrow>
               (case b of
                  Inl (HTTPException code) \<Rightarrow> Inl (HTTPException code)
                | Inl e \<Rightarrow> Inl (HTTPException 500)
                | Inr success \<Rightarrow>
                    if success
                    then Inr \<lparr> del_success = True, del_message = ''Asset deleted successfully'',
                               del_blob_name = blob_name, del_container = container_name \<rparr>
                    else Inl (HTTPException 404),
                w\<lparr>store := sb,
                  logged := logged w @
                    (case r of
                       Inl e \<Rightarrow> [LogWarning ''Failed to delete Cosmos DB metadata: '' e]
                     | Inr u \<Rightarrow> [])\<rparr>)))"
  unfolding delete_asset_resolved [OF assms] asset_id_of_spec media_type_str_def ..

theorem delete_metadata_call_arguments_witness:
  "resolve_container mem_settings (Some IMAGE) None = Inr ''images'' \<and>
   spec_asset_id ''folder/name.png'' = ''name'' \<and>
   spec_asset_id ''v1.2/name.png'' = ''v1'' \<and>
   delete_asset mem_services mem_settings ''cat.png'' (Some IMAGE) None (Some CosmosDBService)
     cat_world =
     (Inr \<lparr> del_success = True, del_message = ''Asset deleted successfully'',
             del_blob_name = ''cat.png'', del_container = ''images'' \<rparr>,
      \<lparr> store = \<lparr> blobs = [], documents = [], containers = [''images'', ''videos''] \<rparr>,
        logged = [] \<rparr>)"
proof -
  have id: "spec_asset_id ''cat.png'' = ''cat''"
    by (simp add: spec_asset_id_def)
  have "mem_delete_asset_metadata ''cat'' ''image'' (store cat_world) =
          (Inr (), (store cat_world)\<lparr>documents := []\<rparr>)"
    by (simp add: mem_delete_asset_metadata_def cat_world_def cat_doc_is_cat)
  moreover have "mem_delete_asset ''cat.png'' ''images'' ((store cat_world)\<lparr>documents := []\<rparr>) =
          (Inr True, (store cat_world)\<lparr>documents := [], blobs := []\<rparr>)"
    by (simp add: mem_delete_asset_def cat_world_def)
  ultimately show ?thesis
    using delete_metadata_call_arguments [OF resolve_container_image, of mem_services
        "''cat.png''" CosmosDBService cat_world]
    by (simp add: id resolve_container_image mem_services_simps mem_settings_simps
        spec_asset_id_def cat_world_def)
qed

text \<open>
  C8. On every delete request whose blob is not found, the response is HTTP 404 and the
  store is the one left by the metadata delete followed by the blob delete: the metadata
  delete has run first. On the in-memory stores, when the document exists and the blob
  does not, the response is HTTP 404 and the document is gone.
\<close>

theorem delete_404_after_metadata_delete:
  assumes "resolve_container st media_type container = Inr container_name"
  shows "(cosmos_delete_asset_metadata svc (asset_id_of blob_name)
            (media_type_str st container_name) (store w) = (r, sa) \<and>
          blob_delete_asset svc blob_name container_name sa = (Inr False, sb)
          \<longrightarrow>
          fst (delete_asset svc st blob_name media_type container (Some c) w)
            = Inl (HTTPException 404) \<and>
          store (snd (delete_asset svc st blob_name media_type container (Some c) w)) = sb)
       \<and>
         (list_ex (doc_is (asset_id_of blob_name) (media_type_str st container_name))
            (documents (store mw)) \<and>
          (container_name, blob_name) \<notin> set (blobs (store mw))
          \<longrightarrow>
          fst (delete_asset mem_services st blob_name media_type container (Some c) mw)
            = Inl (HTTPException 404) \<and>
          documents (store (snd (delete_asset mem_services st blob_name media_type container
                                   (Some c) mw)))
            = filter (\<lambda>d. \<not> doc_is (asset_id_of blob_name) (media_type_str st container_name) d)
                (documents (store mw)) \<and>
          documents (store (snd (delete_asset mem_services st blob_name media_type container
                                   (Some c) mw)))
            \<noteq> documents (store mw))"
proof (intro conjI impI)
  assume "cosmos_delete_asset_metadata svc (asset_id_of blob_name)
            (media_type_str st container_name) (store w) = (r, sa) \<and>
          blob_delete_asset svc blob_name container_name sa = (Inr False, sb)"
  then have res: "delete_asset svc st blob_name media_type container (Some c) w =
      (Inl (HTTPException 404),
       w\<lparr>store := sb,
         logged := logged w @
           (case r of Inl e \<Rightarrow> [LogWarning ''Failed to delete Cosmos DB metadata: '' e]
            | Inr u \<Rightarrow> [])\<rparr>)"
    by (simp add: delete_asset_resolved [OF assms])
  show "fst (delete_asset svc st blob_name media_type container (Some c) w)
          = Inl (HTTPException 404)"
    by (simp add: res)
  show "store (snd (delete_asset svc st blob_name media_type container (Some c) w)) = sb"
    by (simp add: res)
next
  let ?gone = "filter (\<lambda>d. \<not> doc_is (asset_id_of blob_name) (media_type_str st container_name) d)
                 (documents (store mw))"
  assume h: "list_ex (doc_is (asset_id_of blob_name) (media_type_str st container_name))
            (documents (store mw)) \<and>
          (container_name, blob_name) \<notin> set (blobs (store mw))"
  then have ex: "list_ex (doc_is (asset_id_of blob_name) (media_type_str st container_name))
            (documents (store mw))"
    and nb: "(container_name, blob_name) \<notin> set (blobs (store mw))" by simp_all
  have res: "delete_asset mem_services st blob_name media_type container (Some c) mw =
      (Inl (HTTPException 404), mw\<lparr>store := (store mw)\<lparr>documents := ?gone\<rparr>\<rparr>)"
    by (simp add: delete_asset_resolved [OF assms] mem_services_simps
        mem_delete_orphan [OF ex nb])
  show "fst (delete_asset mem_services st blob_name media_type container (Some c) mw)
          = Inl (HTTPException 404)"
    by (simp add: res)
  show "documents (store (snd (delete_asset mem_services st blob_name media_type container
                                 (Some c) mw))) = ?gone"
    by (simp add: res)
  show "documents (store (snd (delete_asset mem_services st blob_name media_type container
                                 (Some c) mw))) \<noteq> documents (store mw)"
    using filter_removes [OF ex] by (simp add: res)
qed

theorem delete_404_after_metadata_delete_witness:
  "resolve_container mem_settings (Some IMAGE) None = Inr ''images'' \<and>
   list_ex (doc_is (asset_id_of ''cat.png'') (media_type_str mem_settings ''images''))
     (documents (store orphan_world)) \<and>
   (''images'', ''cat.png'') \<notin> set (blobs (store orphan_world)) \<and>
   documents (store orphan_world) = [cat_doc] \<and>
   fst (delete_asset mem_services mem_settings ''cat.png'' (Some IMAGE) None
          (Some CosmosDBService) orphan_world) = Inl (HTTPException 404) \<and>
   documents (store (snd (delete_asset mem_services mem_settings ''cat.png'' (Some IMAGE) None
                            (Some CosmosDBService) orphan_world))) = []"
proof -
  have ex: "list_ex (doc_is (asset_id_of ''cat.png'') (media_type_str mem_settings ''images''))
     (documents (store orphan_world))"
    by (simp add: asset_id_of_cat media_type_str_images orphan_world_def cat_doc_is_cat)
  have nb: "(''images'', ''cat.png'') \<notin> set (blobs (store orphan_world))"
    by (simp add: orphan_world_def)
  have docs: "documents (store orphan_world) = [cat_doc]"
    by (simp add: orphan_world_def)
  from delete_404_after_metadata_delete [OF resolve_container_image, THEN conjunct2,
      of "''cat.png''" orphan_world CosmosDBService] ex nb
  have "fst (delete_asset mem_services mem_settings ''cat.png'' (Some IMAGE) None
          (Some CosmosDBService) orphan_world) = Inl (HTTPException 404)"
    and "documents (store (snd (delete_asset mem_services mem_settings ''cat.png'' (Some IMAGE)
                            None (Some CosmosDBService) orphan_world)))
          = filter (\<lambda>d. \<not> doc_is (asset_id_of ''cat.png'')
                             (media_type_str mem_settings ''images'') d)
              (documents (store orphan_world))"
    by simp_all
  then show ?thesis
    using ex nb docs
    by (simp add: resolve_container_image asset_id_of_cat media_type_str_images cat_doc_is_cat)
qed

text \<open>
  C2, as stated, fails: with no metadata store endpoint configured, an upload of a valid
  file and a delete of an existing blob are both answered with HTTP 503 by the
  dependency, although the blob store alone accepts the upload and finds the blob.
\<close>

theorem unconfigured_upload_and_delete_are_503:
  "route_upload mem_services unconfigured_settings png_file IMAGE None None empty_world
     = (Inl (HTTPException 503), empty_world)
   \<and> fst (blob_upload_asset mem_services png_file ''image'' None None (store empty_world))
     = Inr \<lparr> res_blob_name = ''cat.PNG'', res_container = ''images'',
             res_url = ''https://mem.blob.core.windows.net/images/cat.PNG'',
             res_original_filename = ''cat.PNG'', res_size = 5,
             res_content_type = ''application/octet-stream'', res_folder_path = [] \<rparr>
   \<and> route_delete mem_services unconfigured_settings ''cat.png'' (Some IMAGE) None cat_world
     = (Inl (HTTPException 503), cat_world)
   \<and> fst (blob_delete_asset mem_services ''cat.png'' ''images'' (store cat_world)) = Inr True"
  by (simp add: route_upload_def route_delete_def
      get_cosmos_service_unconfigured [OF unconfigured_settings_not_configured]
      mem_services_simps mem_upload_png empty_world_def mem_delete_asset_def cat_world_def)

text \<open>
  C2, amended. The raw blob read never consults the metadata store: its answer is the
  same for every instance of the services with the same blob read operation and for
  all settings with the same two containers, whatever the metadata store operations,
  its client and its settings are. An upload or a delete is rejected with HTTP 503 by
  the dependency, with every store unchanged, when the metadata store is not configured
  or the constructor of its client raises an exception that is not an
  \<open>HTTPException\<close>. When the metadata store is configured and its client is
  constructed, an upload whose blob is stored and a delete whose blob is removed
  succeed although the metadata call raises.
\<close>

theorem blob_only_degradation:
  "(blob_get_asset_content svc' = blob_get_asset_content svc \<and>
    AZURE_BLOB_IMAGE_CONTAINER st' = AZURE_BLOB_IMAGE_CONTAINER st \<and>
    AZURE_BLOB_VIDEO_CONTAINER st' = AZURE_BLOB_VIDEO_CONTAINER st \<longrightarrow>
      get_asset_content svc' st' media_type blob_name s =
      get_asset_content svc st media_type blob_name s)
   \<and>
   (\<not> configured st \<longrightarrow>
      route_upload svc st upload media_type metadata folder_path w
        = (Inl (HTTPException 503), w) \<and>
      route_delete svc st blob_name dmedia_type container w
        = (Inl (HTTPException 503), w))
   \<and>
   (configured st \<and> cosmos_init svc = Some e0 \<and> not_http e0 \<longrightarrow>
      fst (route_upload svc st upload media_type metadata folder_path w)
        = Inl (HTTPException 503) \<and>
      store (snd (route_upload svc st upload media_type metadata folder_path w)) = store w \<and>
      fst (route_delete svc st blob_name dmedia_type container w)
        = Inl (HTTPException 503) \<and>
      store (snd (route_delete svc st blob_name dmedia_type container w)) = store w)
   \<and>
   (configured st \<and> cosmos_init svc = None \<and>
    filename upload = Some fname \<and>
    list_ex (endswith (lower fname)) (valid_types media_type) \<and>
    parse_metadata svc metadata = Inr metadata_dict \<and>
    blob_upload_asset svc upload (media_value media_type) metadata_dict folder_path (store w)
      = (Inr result, sa) \<and>
    cosmos_create_asset_metadata svc (create_request media_type result metadata_dict) sa
      = (Inl e, sb)
    \<longrightarrow>
    fst (route_upload svc st upload media_type metadata folder_path w) =
      Inr \<lparr> up_success = True,
             up_message = capitalize (media_value media_type) @ '' uploaded successfully'',
             up_result = result \<rparr>)
   \<and>
   (configured st \<and> cosmos_init svc = None \<and>
    resolve_container st dmedia_type container = Inr container_name \<and>
    cosmos_delete_asset_metadata svc (asset_id_of blob_name)
      (media_type_str st container_name) (store w) = (Inl e', sc) \<and>
    blob_delete_asset svc blob_name container_name sc = (Inr True, sd)
    \<longrightarrow>
    fst (route_delete svc st blob_name dmedia_type container w) =
      Inr \<lparr> del_success = True, del_message = ''Asset deleted successfully'',
             del_blob_name = blob_name, del_container = container_name \<rparr>)"
proof (intro conjI impI)
  assume "blob_get_asset_content svc' = blob_get_asset_content svc \<and>
    AZURE_BLOB_IMAGE_CONTAINER st' = AZURE_BLOB_IMAGE_CONTAINER st \<and>
    AZURE_BLOB_VIDEO_CONTAINER st' = AZURE_BLOB_VIDEO_CONTAINER st"
  then show "get_asset_content svc' st' media_type blob_name s =
      get_asset_content svc st media_type blob_name s"
    by (elim conjE) (rule get_asset_content_blob_only)
next
  assume "\<not> configured st"
  then show "route_upload svc st upload media_type metadata folder_path w
        = (Inl (HTTPException 503), w)"
    by (simp add: route_upload_def get_cosmos_service_unconfigured)
next
  assume "\<not> configured st"
  then show "route_delete svc st blob_name dmedia_type container w
        = (Inl (HTTPException 503), w)"
    by (simp add: route_delete_def get_cosmos_service_unconfigured)
next
  assume "configured st \<and> cosmos_init svc = Some e0 \<and> not_http e0"
  then have g: "get_cosmos_service svc st =
     (Inl (HTTPException 503), [LogError ''Cosmos DB service initialization failed: '' e0])"
    by (simp add: get_cosmos_service_down)
  show "fst (route_upload svc st upload media_type metadata folder_path w)
        = Inl (HTTPException 503)"
    by (simp add: route_upload_def g)
  show "store (snd (route_upload svc st upload media_type metadata folder_path w)) = store w"
    by (simp add: route_upload_def g)
  show "fst (route_delete svc st blob_name dmedia_type container w)
        = Inl (HTTPException 503)"
    by (simp add: route_delete_def g)
  show "store (snd (route_delete svc st blob_name dmedia_type container w)) = store w"
    by (simp add: route_delete_def g)
next
  assume h: "configured st \<and> cosmos_init svc = None \<and>
    filename upload = Some fname \<and>
    list_ex (endswith (lower fname)) (valid_types media_type) \<and>
    parse_metadata svc metadata = Inr metadata_dict \<and>
    blob_upload_asset svc upload (media_value media_type) metadata_dict folder_path (store w)
      = (Inr result, sa) \<and>
    cosmos_create_asset_metadata svc (create_request media_type result metadata_dict) sa
      = (Inl e, sb)"
  then have g: "get_cosmos_service svc st = (Inr CosmosDBService, [])"
    by (simp add: get_cosmos_service_ok)
  from h have "upload_asset svc upload media_type metadata folder_path (Some CosmosDBService) w =
      (Inr \<lparr> up_success = True,
              up_message = capitalize (media_value media_type) @ '' uploaded successfully'',
              up_result = result \<rparr>,
       w\<lparr>store := sb,
         logged := logged w @ [LogWarning ''Failed to create Cosmos DB metadata: '' e]\<rparr>)"
    by (elim conjE) (rule upload_asset_cosmos_raises)
  then show "fst (route_upload svc st upload media_type metadata folder_path w) =
      Inr \<lparr> up_success = True,
             up_message = capitalize (media_value media_type) @ '' uploaded successfully'',
             up_result = result \<rparr>"
    by (simp add: route_upload_def g)
next
  assume h: "configured st \<and> cosmos_init svc = None \<and>
    resolve_container st dmedia_type container = Inr container_name \<and>
    cosmos_delete_asset_metadata svc (asset_id_of blob_name)
      (media_type_str st container_name) (store w) = (Inl e', sc) \<and>
    blob_delete_asset svc blob_name container_name sc = (Inr True, sd)"
  then have g: "get_cosmos_service svc st = (Inr CosmosDBService, [])"
    by (simp add: get_cosmos_service_ok)
  from h have "delete_asset svc st blob_name dmedia_type container (Some CosmosDBService) w =
      (if True
       then Inr \<lparr> del_success = True, del_message = ''Asset deleted successfully'',
                  del_blob_name = blob_name, del_container = container_name \<rparr>
       else Inl (HTTPException 404),
       w\<lparr>store := sd,
         logged := logged w @ [LogWarning ''Failed to delete Cosmos DB metadata: '' e']\<rparr>)"
    by (elim conjE) (rule delete_asset_cosmos_raises)
  then show "fst (route_delete svc st blob_name dmedia_type container w) =
      Inr \<lparr> del_success = True, del_message = ''Asset deleted successfully'',
             del_blob_name = blob_name, del_container = container_name \<rparr>"
    by (simp add: route_delete_def g)
qed

theorem blob_only_degradation_witness:
  "blob_get_asset_content dead_services = blob_get_asset_content mem_services \<and>
   AZURE_BLOB_IMAGE_CONTAINER unconfigured_settings = AZURE_BLOB_IMAGE_CONTAINER mem_settings \<and>
   AZURE_BLOB_VIDEO_CONTAINER unconfigured_settings = AZURE_BLOB_VIDEO_CONTAINER mem_settings \<and>
   get_asset_content dead_services unconfigured_settings IMAGE ''cat.png'' (store cat_world) =
     Inr \<lparr> stream_content = ''bytes'', stream_media_type = Some ''application/octet-stream'',
           stream_filename = ''cat.png'' \<rparr> \<and>
   \<not> configured unconfigured_settings \<and>
   route_upload mem_services unconfigured_settings png_file IMAGE None None empty_world
     = (Inl (HTTPException 503), empty_world) \<and>
   route_delete mem_services unconfigured_settings ''cat.png'' (Some IMAGE) None cat_world
     = (Inl (HTTPException 503), cat_world) \<and>
   configured mem_settings \<and>
   cosmos_init down_services = Some (ServiceError ''unreachable'') \<and>
   fst (route_upload down_services mem_settings png_file IMAGE None None empty_world)
     = Inl (HTTPException 503) \<and>
   store (snd (route_upload down_services mem_settings png_file IMAGE None None empty_world))
     = empty_store \<and>
   cosmos_init outage_services = None \<and>
   fst (route_upload outage_services mem_settings png_file IMAGE None None empty_world) =
     Inr \<lparr> up_success = True, up_message = ''Image uploaded successfully'',
           up_result =
             \<lparr> res_blob_name = ''cat.PNG'', res_container = ''images'',
               res_url = ''https://mem.blob.core.windows.net/images/cat.PNG'',
               res_original_filename = ''cat.PNG'', res_size = 5,
               res_content_type = ''application/octet-stream'', res_folder_path = [] \<rparr> \<rparr> \<and>
   fst (route_delete outage_services mem_settings ''cat.png'' (Some IMAGE) None cat_world) =
     Inr \<lparr> del_success = True, del_message = ''Asset deleted successfully'',
           del_blob_name = ''cat.png'', del_container = ''images'' \<rparr>"
proof -
  let ?res = "\<lparr> res_blob_name = ''cat.PNG'', res_container = ''images'',
          res_url = ''https://mem.blob.core.windows.net/images/cat.PNG'',
          res_original_filename = ''cat.PNG'', res_size = 5,
          res_content_type = ''application/octet-stream'', res_folder_path = [] \<rparr>"
  let ?sa = "empty_store\<lparr>blobs := [(''images'', ''cat.PNG'')]\<rparr>"
  note unconf = blob_only_degradation [where st = unconfigured_settings and svc = mem_services
      and upload = png_file and media_type = IMAGE and metadata = None and folder_path = None
      and w = empty_world, THEN conjunct2, THEN conjunct1, rule_format,
      OF unconfigured_settings_not_configured, THEN conjunct1]
  note unconf' = blob_only_degradation [where st = unconfigured_settings and svc = mem_services
      and blob_name = "''cat.png''" and dmedia_type = "Some IMAGE" and container = None
      and w = cat_world, THEN conjunct2, THEN conjunct1, rule_format,
      OF unconfigured_settings_not_configured, THEN conjunct2]
  have dn: "configured mem_settings \<and> cosmos_init down_services = Some (ServiceError ''unreachable'')
      \<and> not_http (ServiceError ''unreachable'')"
    by (simp add: mem_settings_configured down_services_simps)
  note down = blob_only_degradation [where st = mem_settings and svc = down_services
      and upload = png_file and media_type = IMAGE and metadata = None and folder_path = None
      and w = empty_world and ?e0.0 = "ServiceError ''unreachable''",
      THEN conjunct2, THEN conjunct2, THEN conjunct1, rule_format, OF dn]
  have up: "configured mem_settings \<and> cosmos_init outage_services = None \<and>
    filename png_file = Some ''cat.PNG'' \<and>
    list_ex (endswith (lower ''cat.PNG'')) (valid_types IMAGE) \<and>
    parse_metadata outage_services None = Inr None \<and>
    blob_upload_asset outage_services png_file (media_value IMAGE) None None (store empty_world)
      = (Inr ?res, ?sa) \<and>
    cosmos_create_asset_metadata outage_services (create_request IMAGE ?res None) ?sa
      = (Inl (ServiceError ''unreachable''), ?sa)"
    by (simp only: mem_settings_configured outage_services_simps(1) outage_upload_steps
        filename_png_file png_file_valid simp_thms)
  note upload = blob_only_degradation [where st = mem_settings and svc = outage_services
      and upload = png_file and fname = "''cat.PNG''" and media_type = IMAGE and metadata = None
      and metadata_dict = None and folder_path = None and w = empty_world and result = "?res"
      and sa = "?sa" and e = "ServiceError ''unreachable''" and sb = "?sa",
      THEN conjunct2, THEN conjunct2, THEN conjunct2, THEN conjunct1, rule_format, OF up]
  have dl: "configured mem_settings \<and> cosmos_init outage_services = None \<and>
    resolve_container mem_settings (Some IMAGE) None = Inr ''images'' \<and>
    cosmos_delete_asset_metadata outage_services (asset_id_of ''cat.png'')
      (media_type_str mem_settings ''images'') (store cat_world)
      = (Inl (ServiceError ''unreachable''), store cat_world) \<and>
    blob_delete_asset outage_services ''cat.png'' ''images'' (store cat_world)
      = (Inr True, (store cat_world)\<lparr>blobs := []\<rparr>)"
    by (simp only: mem_settings_configured outage_services_simps(1) outage_delete_steps
        resolve_container_image simp_thms)
  note delete = blob_only_degradation [where st = mem_settings and svc = outage_services
      and blob_name = "''cat.png''" and dmedia_type = "Some IMAGE" and container = None
      and container_name = "''images''" and w = cat_world
      and e' = "ServiceError ''unreachable''" and sc = "store cat_world"
      and sd = "(store cat_world)\<lparr>blobs := []\<rparr>",
      THEN conjunct2, THEN conjunct2, THEN conjunct2, THEN conjunct2, rule_format, OF dl]
  have rd: "blob_get_asset_content dead_services = blob_get_asset_content mem_services \<and>
    AZURE_BLOB_IMAGE_CONTAINER unconfigured_settings = AZURE_BLOB_IMAGE_CONTAINER mem_settings \<and>
    AZURE_BLOB_VIDEO_CONTAINER unconfigured_settings = AZURE_BLOB_VIDEO_CONTAINER mem_settings"
    by (simp only: dead_services_simps mem_services_simps unconfigured_settings_containers
        simp_thms)
  note read = blob_only_degradation [where svc' = dead_services and svc = mem_services
      and st' = unconfigured_settings and st = mem_settings and media_type = IMAGE
      and blob_name = "''cat.png''" and s = "store cat_world",
      THEN conjunct1, rule_format, OF rd]
  have content: "get_asset_content dead_services unconfigured_settings IMAGE ''cat.png''
      (store cat_world) =
     Inr \<lparr> stream_content = ''bytes'', stream_media_type = Some ''application/octet-stream'',
           stream_filename = ''cat.png'' \<rparr>"
    by (simp only: read mem_cat_content)
  have rest: "\<not> configured unconfigured_settings \<and>
   route_upload mem_services unconfigured_settings png_file IMAGE None None empty_world
     = (Inl (HTTPException 503), empty_world) \<and>
   route_delete mem_services unconfigured_settings ''cat.png'' (Some IMAGE) None cat_world
     = (Inl (HTTPException 503), cat_world) \<and>
   configured mem_settings \<and>
   cosmos_init down_services = Some (ServiceError ''unreachable'') \<and>
   fst (route_upload down_services mem_settings png_file IMAGE None None empty_world)
     = Inl (HTTPException 503) \<and>
   store (snd (route_upload down_services mem_settings png_file IMAGE None None empty_world))
     = empty_store \<and>
   cosmos_init outage_services = None \<and>
   fst (route_upload outage_services mem_settings png_file IMAGE None None empty_world) =
     Inr \<lparr> up_success = True, up_message = ''Image uploaded successfully'',
           up_result = ?res \<rparr> \<and>
   fst (route_delete outage_services mem_settings ''cat.png'' (Some IMAGE) None cat_world) =
     Inr \<lparr> del_success = True, del_message = ''Asset deleted successfully'',
           del_blob_name = ''cat.png'', del_container = ''images'' \<rparr>"
    using unconf unconf' down upload delete
    by (simp add: unconfigured_settings_not_configured mem_settings_configured
        down_services_simps outage_services_simps upper_char_def lower_char_def
        empty_world_def)
  from rd content rest show ?thesis by blast
qed

text \<open>
  C3, as stated, fails: on a page of two documents where no URL can be made for the
  first one and the URL of the second one is made, \<open>get_gallery_images\<close> and
  \<open>get_gallery_items\<close> answer HTTP 500; the second item is not returned.
\<close>

theorem one_url_failure_fails_page:
  "cosmos_query_assets mem_services
     \<lparr> q_media_type = Some ''image'', q_folder_path = None, q_tags = None,
       q_limit = 50, q_offset = 0, q_order_by = ''created_at'', q_order_desc = True \<rparr>
     (store mixed_world) = Inr \<lparr> result_items = [broken_doc, cat_doc], result_total = 2 \<rparr>
   \<and> sas_url_of mem_services (store mixed_world) broken_doc = Inl TypeError
   \<and> sas_url_of mem_services (store mixed_world) cat_doc =
       Inr ''https://mem.blob.core.windows.net/images/cat.png?se=24h''
   \<and> get_gallery_images mem_services 50 0 None None mixed_world =
       (Inl (HTTPException 500),
        mixed_world\<lparr>logged := [LogError ''Error retrieving images: '' TypeError]\<rparr>)
   \<and> get_gallery_items mem_services 50 0 None None None mixed_world =
       (Inl (HTTPException 500),
        mixed_world\<lparr>logged := [LogError ''Error retrieving gallery items: '' TypeError]\<rparr>)"
proof -
  have q: "parse_tags None = None" by (simp add: parse_tags_def)
  have b: "sas_url_of mem_services (store mixed_world) broken_doc = Inl TypeError"
    by (simp add: sas_url_of_def getitem_def broken_doc_fields broken_doc_url_fails)
  have c: "sas_url_of mem_services (store mixed_world) cat_doc =
       Inr ''https://mem.blob.core.windows.net/images/cat.png?se=24h''"
    by (simp add: sas_url_of_def getitem_def cat_doc_fields cat_doc_url)
  have lg: "logged mixed_world = []" by (simp add: mixed_world_def)
  have i: "get_gallery_images mem_services 50 0 None None mixed_world =
       (Inl (HTTPException 500),
        mixed_world\<lparr>logged := [LogError ''Error retrieving images: '' TypeError]\<rparr>)"
    by (simp add: get_gallery_images_def listing_def mixed_world_query
        typed_item_fails [OF b] lg)
  have g: "get_gallery_items mem_services 50 0 None None None mixed_world =
       (Inl (HTTPException 500),
        mixed_world\<lparr>logged := [LogError ''Error retrieving gallery items: '' TypeError]\<rparr>)"
    by (simp add: get_gallery_items_def listing_def mixed_world_query
        mixed_item_fails [OF b] lg)
  from mixed_world_query(1) b c i g show ?thesis by (simp add: q)
qed

text \<open>
  C3, amended. When the URL generation raises for one document of the page, each of the
  three listing handlers logs an error and answers HTTP 500: no item of the page is
  returned.
\<close>

theorem url_failure_fails_whole_page:
  assumes "m \<in> set (result_items (result :: query_result))"
    and "doc_fields m ''blob_name'' = Some b"
    and "doc_fields m ''container'' = Some cn"
    and "blob_generate_blob_sas_url svc b cn 24 (store w) = Inl e"
  shows "(cosmos_query_assets svc
            \<lparr> q_media_type = Some ''image'', q_folder_path = folder_path,
              q_tags = parse_tags tags, q_limit = limit, q_offset = offset,
              q_order_by = ''created_at'', q_order_desc = True \<rparr> (store w) = Inr result
          \<longrightarrow> (\<exists>e'. get_gallery_images svc limit offset folder_path tags w =
                 (Inl (HTTPException 500),
                  w\<lparr>logged := logged w @ [LogError ''Error retrieving images: '' e']\<rparr>)))
       \<and>
         (cosmos_query_assets svc
            \<lparr> q_media_type = Some ''video'', q_folder_path = folder_path,
              q_tags = parse_tags tags, q_limit = limit, q_offset = offset,
              q_order_by = ''created_at'', q_order_desc = True \<rparr> (store w) = Inr result
          \<longrightarrow> (\<exists>e'. get_gallery_videos svc limit offset folder_path tags w =
                 (Inl (HTTPException 500),
                  w\<lparr>logged := logged w @ [LogError ''Error retrieving videos: '' e']\<rparr>)))
       \<and>
         (cosmos_query_assets svc
            \<lparr> q_media_type = media_type, q_folder_path = folder_path,
              q_tags = parse_tags tags, q_limit = limit, q_offset = offset,
              q_order_by = ''created_at'', q_order_desc = True \<rparr> (store w) = Inr result
          \<longrightarrow> (\<exists>e'. get_gallery_items svc limit offset folder_path tags media_type w =
                 (Inl (HTTPException 500),
                  w\<lparr>logged := logged w @ [LogError ''Error retrieving gallery items: '' e']\<rparr>)))"
proof -
  have u: "sas_url_of svc (store w) m = Inl e"
    by (rule sas_url_of_fails [OF assms(2,3,4)])
  show ?thesis
    unfolding get_gallery_images_def get_gallery_videos_def get_gallery_items_def
    by (intro conjI impI; rule listing_fails [OF _ assms(1)])
      (simp_all add: typed_item_fails [OF u] mixed_item_fails [OF u])
qed

theorem url_failure_fails_whole_page_witness:
  "broken_doc \<in> set (result_items \<lparr> result_items = [broken_doc, cat_doc], result_total = 2 \<rparr>) \<and>
   doc_fields broken_doc ''blob_name'' = Some SNone \<and>
   doc_fields broken_doc ''container'' = Some (SStr ''images'') \<and>
   blob_generate_blob_sas_url mem_services SNone (SStr ''images'') 24 (store mixed_world)
     = Inl TypeError \<and>
   (\<exists>e'. get_gallery_images mem_services 50 0 None None mixed_world =
          (Inl (HTTPException 500),
           mixed_world\<lparr>logged := logged mixed_world @
                                    [LogError ''Error retrieving images: '' e']\<rparr>)) \<and>
   (\<exists>e'. get_gallery_items mem_services 50 0 None None None mixed_world =
          (Inl (HTTPException 500),
           mixed_world\<lparr>logged := logged mixed_world @
                                    [LogError ''Error retrieving gallery items: '' e']\<rparr>))"
proof -
  have a: "broken_doc \<in> set (result_items \<lparr> result_items = [broken_doc, cat_doc],
                                            result_total = 2 \<rparr>)"
    by simp
  note page = url_failure_fails_whole_page [OF a broken_doc_fields(2) broken_doc_fields(3)
      broken_doc_url_fails, where w = mixed_world and limit = 50 and offset = 0
      and folder_path = None and tags = None and media_type = None]
  from page [THEN conjunct1, rule_format, OF mixed_world_query(1)]
    page [THEN conjunct2, THEN conjunct2, rule_format, OF mixed_world_query(2)]
    a broken_doc_fields(2) broken_doc_fields(3) broken_doc_url_fails
  show ?thesis by blast
qed

text \<open>
  C6, as stated, fails: an image document without the \<open>has_transparency\<close> key, and
  without that key in its custom metadata, is given the text \<open>False\<close> for it, not the
  empty string.
\<close>

theorem has_transparency_defaults_to_False:
  "doc_fields cat_doc ''has_transparency'' = None
   \<and> custom_or_empty cat_doc ''has_transparency'' = None
   \<and> image_metadata cat_doc ''has_transparency'' = Some (SStr ''False'')
   \<and> item_metadata_of cat_doc = Inr (image_metadata cat_doc)"
proof -
  have a: "image_metadata cat_doc ''has_transparency'' = Some (SStr ''False'')"
    by (simp add: image_metadata_default cat_doc_fields absent_from_def image_keys_def
        default_text_def)
  have b: "item_metadata_of cat_doc = Inr (image_metadata cat_doc)"
    by (rule item_metadata_of_image) (rule cat_doc_fields)
  from a b cat_doc_fields(8) cat_doc_fields(12) show ?thesis by simp
qed

text \<open>
  C6, amended. In each of the three listings the custom metadata is merged last: a key
  of the custom metadata has the custom value. A built-in key that is neither in the
  custom metadata nor in the document has the empty string, except
  \<open>has_transparency\<close>, which has the text \<open>False\<close>.
\<close>

theorem custom_metadata_merged_last:
  "(custom_or_empty m k = Some v \<longrightarrow>
      image_metadata m k = Some v \<and>
      video_metadata m k = Some v \<and>
      (\<forall>md. item_metadata_of m = Inr md \<longrightarrow> md k = Some v))
   \<and>
   (custom_or_empty m k = None \<and> absent_from m k \<longrightarrow>
      (k \<in> set image_keys \<longrightarrow> image_metadata m k = Some (SStr (default_text k))) \<and>
      (k \<in> set video_keys \<longrightarrow> video_metadata m k = Some (SStr (default_text k))) \<and>
      (\<forall>md. item_metadata_of m = Inr md \<longrightarrow>
         (if doc_fields m ''media_type'' = Some (SStr ''image'')
          then k \<in> set image_keys else k \<in> set video_keys) \<longrightarrow>
         md k = Some (SStr (default_text k))))"
proof (intro conjI impI allI)
  assume c: "custom_or_empty m k = Some v"
  show "image_metadata m k = Some v" by (rule image_metadata_custom [OF c])
  show "video_metadata m k = Some v" by (rule video_metadata_custom [OF c])
  fix md
  assume "item_metadata_of m = Inr md"
  then show "md k = Some v" by (rule item_metadata_of_custom [OF c])
next
  assume "custom_or_empty m k = None \<and> absent_from m k" and "k \<in> set image_keys"
  then show "image_metadata m k = Some (SStr (default_text k))"
    by (simp add: image_metadata_default)
next
  assume "custom_or_empty m k = None \<and> absent_from m k" and "k \<in> set video_keys"
  then show "video_metadata m k = Some (SStr (default_text k))"
    by (simp add: video_metadata_default)
next
  fix md
  assume h: "custom_or_empty m k = None \<and> absent_from m k"
    and md: "item_metadata_of m = Inr md"
    and k: "if doc_fields m ''media_type'' = Some (SStr ''image'')
            then k \<in> set image_keys else k \<in> set video_keys"
  from item_metadata_of_media_type [OF md] obtain mt where
    mt: "doc_fields m ''media_type'' = Some mt" by blast
  from h have c: "custom_or_empty m k = None" and a: "absent_from m k" by simp_all
  show "md k = Some (SStr (default_text k))"
  proof (cases "mt = SStr ''image''")
    case True
    with k mt have kk: "k \<in> set image_keys" by simp
    from mt True have im: "doc_fields m ''media_type'' = Some (SStr ''image'')" by simp
    show ?thesis by (rule item_metadata_of_image_default [OF c a kk im md])
  next
    case False
    with k mt have kk: "k \<in> set video_keys" by simp
    show ?thesis by (rule item_metadata_of_video_default [OF c a kk mt False md])
  qed
qed

theorem custom_metadata_merged_last_witness:
  "custom_or_empty cat_doc ''prompt'' = Some (SStr ''my prompt'') \<and>
   doc_fields cat_doc ''prompt'' = Some (SStr ''a cat'') \<and>
   image_metadata cat_doc ''prompt'' = Some (SStr ''my prompt'') \<and>
   custom_or_empty cat_doc ''has_transparency'' = None \<and>
   absent_from cat_doc ''has_transparency'' \<and>
   ''has_transparency'' \<in> set image_keys \<and>
   image_metadata cat_doc ''has_transparency'' = Some (SStr ''False'') \<and>
   custom_or_empty cat_doc ''quality'' = None \<and>
   absent_from cat_doc ''quality'' \<and>
   ''quality'' \<in> set image_keys \<and>
   image_metadata cat_doc ''quality'' = Some (SStr [])"
proof -
  have p: "doc_fields cat_doc ''prompt'' = Some (SStr ''a cat'')"
    by (simp add: cat_doc_def)
  have q: "custom_or_empty cat_doc ''quality'' = None" "absent_from cat_doc ''quality''"
    "''quality'' \<in> set image_keys"
    by (simp_all add: cat_doc_def custom_or_empty_def absent_from_def image_keys_def)
  have h: "custom_or_empty cat_doc ''has_transparency'' = None"
    "absent_from cat_doc ''has_transparency''" "''has_transparency'' \<in> set image_keys"
    by (simp_all add: cat_doc_fields absent_from_def image_keys_def)
  from custom_metadata_merged_last [of cat_doc "''prompt''" "SStr ''my prompt''", THEN conjunct1]
    cat_doc_fields(13)
  have 1: "image_metadata cat_doc ''prompt'' = Some (SStr ''my prompt'')" by simp
  from custom_metadata_merged_last [of cat_doc "''has_transparency''" SNone, THEN conjunct2] h
  have 2: "image_metadata cat_doc ''has_transparency'' = Some (SStr ''False'')"
    by (simp add: default_text_def)
  from custom_metadata_merged_last [of cat_doc "''quality''" SNone, THEN conjunct2] q
  have 3: "image_metadata cat_doc ''quality'' = Some (SStr [])"
    by (simp add: default_text_def)
  from 1 2 3 p q h cat_doc_fields(13) show ?thesis by simp
qed

text \<open>
  C7. The URL of every item a listing returns is the one the blob service gives for the
  item's blob name and container with an expiry of 24 hours. \<open>get_sas_tokens\<close> asks
  for a token of the video container and a token of the image container, each read-only
  and expiring one hour (3600 seconds) after the clock reading taken for it; it returns
  them when both calls succeed.
\<close>

theorem access_expiry_windows:
  "(get_gallery_images svc limit offset folder_path tags w = (Inr resp, w') \<longrightarrow>
      (\<forall>it\<in>set (resp_items resp).
         blob_generate_blob_sas_url svc (item_name it) (item_container it) 24 (store w)
           = Inr (item_url it)))
   \<and>
   (get_gallery_videos svc limit offset folder_path tags w = (Inr resp, w') \<longrightarrow>
      (\<forall>it\<in>set (resp_items resp).
         blob_generate_blob_sas_url svc (item_name it) (item_container it) 24 (store w)
           = Inr (item_url it)))
   \<and>
   (get_gallery_items svc limit offset folder_path tags media_type w = (Inr resp, w') \<longrightarrow>
      (\<forall>it\<in>set (resp_items resp).
         blob_generate_blob_sas_url svc (item_name it) (item_container it) 24 (store w)
           = Inr (item_url it)))
   \<and>
   (get_sas_tokens svc st now1 now2 now3 = Inr r \<longrightarrow>
      generate_container_sas svc
        \<lparr> sas_account_name = AZURE_STORAGE_ACCOUNT_NAME st,
          sas_container_name = AZURE_BLOB_VIDEO_CONTAINER st,
          sas_account_key = AZURE_STORAGE_ACCOUNT_KEY st,
          sas_permission = \<lparr> perm_read = True, perm_write = False, perm_delete = False,
                             perm_list = False \<rparr>,
          sas_expiry = now1 + 3600 \<rparr> = Inr (video_sas_token r) \<and>
      generate_container_sas svc
        \<lparr> sas_account_name = AZURE_STORAGE_ACCOUNT_NAME st,
          sas_container_name = AZURE_BLOB_IMAGE_CONTAINER st,
          sas_account_key = AZURE_STORAGE_ACCOUNT_KEY st,
          sas_permission = \<lparr> perm_read = True, perm_write = False, perm_delete = False,
                             perm_list = False \<rparr>,
          sas_expiry = now2 + 3600 \<rparr> = Inr (image_sas_token r) \<and>
      sas_response_expiry r = now3 + 3600)
   \<and>
   (generate_container_sas svc (video_token_args st now1) = Inr vt \<and>
    generate_container_sas svc (image_token_args st now2) = Inr imt \<longrightarrow>
      (\<exists>r. get_sas_tokens svc st now1 now2 now3 = Inr r \<and>
           video_sas_token r = vt \<and> image_sas_token r = imt))"
proof (intro conjI impI)
  assume "get_gallery_images svc limit offset folder_path tags w = (Inr resp, w')"
  then show "\<forall>it\<in>set (resp_items resp).
         blob_generate_blob_sas_url svc (item_name it) (item_container it) 24 (store w)
           = Inr (item_url it)"
    unfolding get_gallery_images_def by (rule listing_urls) (rule typed_item_url)
next
  assume "get_gallery_videos svc limit offset folder_path tags w = (Inr resp, w')"
  then show "\<forall>it\<in>set (resp_items resp).
         blob_generate_blob_sas_url svc (item_name it) (item_container it) 24 (store w)
           = Inr (item_url it)"
    unfolding get_gallery_videos_def by (rule listing_urls) (rule typed_item_url)
next
  assume "get_gallery_items svc limit offset folder_path tags media_type w = (Inr resp, w')"
  then show "\<forall>it\<in>set (resp_items resp).
         blob_generate_blob_sas_url svc (item_name it) (item_container it) 24 (store w)
           = Inr (item_url it)"
    unfolding get_gallery_items_def by (rule listing_urls) (rule mixed_item_url)
next
  assume r: "get_sas_tokens svc st now1 now2 now3 = Inr r"
  from get_sas_tokens_Inr(1) [OF r]
  show "generate_container_sas svc
        \<lparr> sas_account_name = AZURE_STORAGE_ACCOUNT_NAME st,
          sas_container_name = AZURE_BLOB_VIDEO_CONTAINER st,
          sas_account_key = AZURE_STORAGE_ACCOUNT_KEY st,
          sas_permission = \<lparr> perm_read = True, perm_write = False, perm_delete = False,
                             perm_list = False \<rparr>,
          sas_expiry = now1 + 3600 \<rparr> = Inr (video_sas_token r)"
    by (simp add: token_args_explicit)
  from get_sas_tokens_Inr(2) [OF r]
  show "generate_container_sas svc
        \<lparr> sas_account_name = AZURE_STORAGE_ACCOUNT_NAME st,
          sas_container_name = AZURE_BLOB_IMAGE_CONTAINER st,
          sas_account_key = AZURE_STORAGE_ACCOUNT_KEY st,
          sas_permission = \<lparr> perm_read = True, perm_write = False, perm_delete = False,
                             perm_list = False \<rparr>,
          sas_expiry = now2 + 3600 \<rparr> = Inr (image_sas_token r)"
    by (simp add: token_args_explicit)
  from get_sas_tokens_Inr(3) [OF r] show "sas_response_expiry r = now3 + 3600" .
next
  assume "generate_container_sas svc (video_token_args st now1) = Inr vt \<and>
    generate_container_sas svc (image_token_args st now2) = Inr imt"
  then show "\<exists>r. get_sas_tokens svc st now1 now2 now3 = Inr r \<and>
           video_sas_token r = vt \<and> image_sas_token r = imt"
    by (elim conjE) (rule get_sas_tokens_ok)
qed

theorem access_expiry_windows_witness:
  "get_gallery_images mem_services 50 0 None None cat_world =
     (Inr \<lparr> resp_success = True, resp_message = ''Retrieved 1 images from Cosmos DB'',
             resp_total = 1, resp_limit = 50, resp_offset = 0, resp_items = [cat_item],
             resp_continuation_token = None, resp_folders = None \<rparr>, cat_world) \<and>
   blob_generate_blob_sas_url mem_services (SStr ''cat.png'') (SStr ''images'') 24
     (store cat_world) = Inr ''https://mem.blob.core.windows.net/images/cat.png?se=24h'' \<and>
   item_url cat_item = ''https://mem.blob.core.windows.net/images/cat.png?se=24h'' \<and>
   generate_container_sas mem_services (video_token_args mem_settings 1000)
     = Inr ''sr=c&sp=r&se=4600&c=videos'' \<and>
   generate_container_sas mem_services (image_token_args mem_settings 1001)
     = Inr ''sr=c&sp=r&se=4601&c=images'' \<and>
   (\<exists>r. get_sas_tokens mem_services mem_settings 1000 1001 1002 = Inr r \<and>
        video_sas_token r = ''sr=c&sp=r&se=4600&c=videos'' \<and>
        image_sas_token r = ''sr=c&sp=r&se=4601&c=images'')"
proof -
  note inst = access_expiry_windows [where svc = mem_services and limit = 50 and offset = 0
      and folder_path = None and tags = None and w = cat_world and w' = cat_world
      and resp = "\<lparr> resp_success = True, resp_message = ''Retrieved 1 images from Cosmos DB'',
             resp_total = 1, resp_limit = 50, resp_offset = 0, resp_items = [cat_item],
             resp_continuation_token = None, resp_folders = None \<rparr>"
      and st = mem_settings and ?now1.0 = 1000 and ?now2.0 = 1001 and ?now3.0 = 1002
      and vt = "''sr=c&sp=r&se=4600&c=videos''" and imt = "''sr=c&sp=r&se=4601&c=images''"]
  from inst [THEN conjunct1, rule_format, OF cat_world_images, of cat_item]
  have url: "blob_generate_blob_sas_url mem_services (item_name cat_item)
               (item_container cat_item) 24 (store cat_world) = Inr (item_url cat_item)"
    by simp
  from inst [THEN conjunct2, THEN conjunct2, THEN conjunct2, THEN conjunct2, rule_format]
    mem_tokens
  have tok: "\<exists>r. get_sas_tokens mem_services mem_settings 1000 1001 1002 = Inr r \<and>
        video_sas_token r = ''sr=c&sp=r&se=4600&c=videos'' \<and>
        image_sas_token r = ''sr=c&sp=r&se=4601&c=images''"
    by simp
  from url have "blob_generate_blob_sas_url mem_services (SStr ''cat.png'') (SStr ''images'') 24
     (store cat_world) = Inr ''https://mem.blob.core.windows.net/images/cat.png?se=24h''"
    and "item_url cat_item = ''https://mem.blob.core.windows.net/images/cat.png?se=24h''"
    by (simp_all add: cat_item_def)
  with cat_world_images mem_tokens tok show ?thesis by blast
qed




end
